theory Spec2Isabelle
  imports Complex_Main "HOL-Library.Sublist" "HOL-Library.Word"
begin

section \<open>Certificate verification pipeline (client/pages: analyzeFile and its helpers)\<close>

text \<open>
  A shallow embedding of the verification pipeline: \<open>analyzeFile\<close>, \<open>localVerification\<close>,
  \<open>sha256Hex\<close> and \<open>extractCertificateNumber\<close>, with the wire types of \<open>shared/api.ts\<close>.

  Conventions of the embedding.
  \<^item> A JavaScript \<open>number\<close> that the pipeline compares or formats is a \<open>real\<close>; sizes and
    counts are \<open>nat\<close>, years are \<open>int\<close>.
  \<^item> An optional field (\<open>f?: T\<close>), \<open>undefined\<close> and \<open>null\<close> are \<open>None\<close>.
  \<^item> A promise that rejects, or a \<open>throw\<close>, is \<open>Inl e\<close>; a value is \<open>Inr v\<close>.
  \<^item> Field names are the source's. Where two record types of the source share a field
    name, or the name is a constant of HOL (\<open>id\<close>, \<open>size\<close>), the field carries a short
    prefix of its record.
  \<^item> \<open>console.log\<close>, \<open>console.warn\<close> and \<open>console.error\<close> have no effect on the result and
    are left out.
\<close>

subsection \<open>Data model\<close>

datatype Status = valid | suspect | invalid

record RegistryRecord =
  certificateNumber :: string
  hashHex :: string
  name :: string
  institution :: string
  course :: string
  year :: int

text \<open>The inline type of \<open>VerificationResponse.matched_record\<close>.\<close>

record MatchedRecordWire =
  certificate_number :: string
  mr_name :: string
  mr_institution :: string
  mr_course :: string
  mr_year :: int

record UploadResponse =
  up_id :: string
  filename :: string
  up_size :: nat
  mime_type :: string
  upload_time :: string
  up_status :: string

record OCRResponse =
  ocr_id :: string
  extracted_text :: string
  ocr_confidence :: real
  ocr_processing_time :: real
  language :: string

record VerificationResponse =
  vr_id :: string
  vr_status :: Status
  vr_confidence :: real
  matched_record :: "MatchedRecordWire option"
  vr_issues :: "string list"
  verification_time :: string

record IndividualPrediction =
  ip_prediction :: real
  ip_confidence :: real
  model :: string
  ip_error :: "string option"

record TextAnalysis =
  text_length :: nat
  word_count :: nat
  suspicious_patterns :: "string list"
  quality_score :: real

record MLDetectionResponse =
  success :: bool
  is_fake :: bool
  confidence :: real
  authenticity_score :: real
  prediction :: real
  processing_time :: real
  models_used :: nat
  individual_predictions :: "IndividualPrediction list"
  text_analysis :: "TextAnalysis option"
  error_message :: "string option"
  timestamp :: "string option"

record Metadata =
  fileName :: string
  md_size :: nat
  mime :: string
  md_hashHex :: string
  qrData :: "string option"
  uploadId :: "string option"
  ocrText :: "string option"
  backendVerification :: "VerificationResponse option"
  mlDetection :: "MLDetectionResponse option"

record VerificationResult =
  status :: Status
  issues :: "string list"
  metadata :: Metadata
  matchedRecord :: "RegistryRecord option"

text \<open>
  What can be thrown at the pipeline: \<open>request\<close> throws \<open>API Error: <status> <text>\<close> on a
  response that is not ok; \<open>fetch\<close> and \<open>response.json\<close> reject on a transport error or a
  malformed body; the browser rejects when a file or an image cannot be read.
\<close>

datatype js_error = ApiError nat string | TransportError string | ReadError string

type_synonym byte = "8 word"

text \<open>The browser's \<open>File\<close>: \<open>name\<close>, \<open>type\<close>, \<open>size\<close> and the promise \<open>arrayBuffer()\<close>.\<close>

record UploadedFile =
  file_name :: string
  file_type :: string
  file_size :: nat
  arrayBuffer :: "js_error + byte list"

subsection \<open>The mock registry\<close>

definition MOCK_REGISTRY :: "RegistryRecord list" where
  "MOCK_REGISTRY =
     [\<lparr>certificateNumber = ''JH-NU-2019-000123'',
       hashHex = ''e3b0c44298fc1c149afbf4c8996fb92427ae41e4649b934ca495991b7852b855'',
       name = ''Aarav Kumar'',
       institution = ''Nilamber-Pitamber University'',
       course = ''B.Sc'',
       year = 2019\<rparr>,
      \<lparr>certificateNumber = ''JH-RU-2021-004567'',
       hashHex = ''aaaaaaaaaaaaaaaaaaaaaaaaaaaaaaaaaaaaaaaaaaaaaaaaaaaaaaaaaaaaaaaa'',
       name = ''Ishita Singh'',
       institution = ''Ranchi University'',
       course = ''B.Tech'',
       year = 2021\<rparr>]"

subsection \<open>extractCertificateNumber\<close>

text \<open>
  The pattern is \<open>/JH-[A-Z]{2}-\d{4}-\d{6,}/i\<close>. Without the \<open>u\<close> flag, \<open>i\<close> makes \<open>J\<close>, \<open>H\<close>
  and \<open>[A-Z]\<close> match the ASCII letters of either case and nothing else; \<open>\d\<close> is an ASCII
  digit.
\<close>

definition is_digit :: "char \<Rightarrow> bool" where
  "is_digit c = (c \<in> set ''0123456789'')"

definition is_letter :: "char \<Rightarrow> bool" where
  "is_letter c =
     (c \<in> set ''ABCDEFGHIJKLMNOPQRSTUVWXYZ'' \<or> c \<in> set ''abcdefghijklmnopqrstuvwxyz'')"

text \<open>
  The pattern anchored at the head of the input. The last atom \<open>\d{6,}\<close> is greedy and
  nothing follows it, so it takes the whole run of digits and never gives any back.
\<close>

fun match_here :: "string \<Rightarrow> string option" where
  "match_here (j # h # d1 # a # b # d2 # y1 # y2 # y3 # y4 # d3 # rest) =
     (if (j = CHR ''J'' \<or> j = CHR ''j'') \<and> (h = CHR ''H'' \<or> h = CHR ''h'') \<and> d1 = CHR ''-''
         \<and> is_letter a \<and> is_letter b \<and> d2 = CHR ''-''
         \<and> is_digit y1 \<and> is_digit y2 \<and> is_digit y3 \<and> is_digit y4 \<and> d3 = CHR ''-''
         \<and> 6 \<le> length (takeWhile is_digit rest)
      then Some ([j, h, d1, a, b, d2, y1, y2, y3, y4, d3] @ takeWhile is_digit rest)
      else None)"
| "match_here _ = None"

text \<open>\<open>input.match(re)\<close> for a pattern without the \<open>g\<close> flag: the match at the leftmost
  position that has one; \<open>m[0]\<close> is the matched text.\<close>

fun regex_match :: "string \<Rightarrow> string option" where
  "regex_match [] = None"
| "regex_match (c # cs) =
     (case match_here (c # cs) of Some m \<Rightarrow> Some m | None \<Rightarrow> regex_match cs)"

definition toUpperCaseChar :: "char \<Rightarrow> char" where
  "toUpperCaseChar c =
     (case map_of (zip ''abcdefghijklmnopqrstuvwxyz'' ''ABCDEFGHIJKLMNOPQRSTUVWXYZ'') c of
        Some u \<Rightarrow> u
      | None \<Rightarrow> c)"

definition toUpperCase :: "string \<Rightarrow> string" where
  "toUpperCase s = map toUpperCaseChar s"

definition extractCertificateNumber :: "string option \<Rightarrow> string option" where
  "extractCertificateNumber input =
     (case input of
        None \<Rightarrow> None
      | Some s \<Rightarrow>
          if s = [] then None
          else (case regex_match s of Some m \<Rightarrow> Some (toUpperCase m) | None \<Rightarrow> None))"

subsection \<open>sha256Hex\<close>

text \<open>
  The runtime the code runs in. \<open>subtle_digest\<close> is \<open>crypto.subtle.digest("SHA-256", _)\<close>,
  \<open>None\<close> where \<open>crypto\<close> or \<open>crypto.subtle\<close> is undefined (a page outside a secure context);
  the hash itself is the browser's and is a parameter here. \<open>date_now\<close> is \<open>Date.now()\<close>.
  \<open>toFixed1\<close> is \<open>Number.prototype.toFixed(1)\<close>. \<open>createImageBitmap\<close> decodes a file into
  pixels or rejects; \<open>getImageData\<close> is the canvas (\<open>getContext("2d")\<close>, \<open>drawImage\<close>,
  \<open>getImageData\<close>), with \<open>Inr None\<close> when there is no 2d context; \<open>jsQR\<close> gives the \<open>data\<close>
  of the code it finds, if any. The last four fields are the remote calls of \<open>apiClient\<close>,
  each giving the outcome of a call from its arguments.
\<close>

record ImageData =
  img_data :: "byte list"
  img_width :: nat
  img_height :: nat

record env =
  subtle_digest :: "(byte list \<Rightarrow> byte list) option"
  date_now :: nat
  toFixed1 :: "real \<Rightarrow> string"
  createImageBitmap :: "UploadedFile \<Rightarrow> js_error + ImageData"
  getImageData :: "ImageData \<Rightarrow> js_error + ImageData option"
  jsQR :: "byte list \<Rightarrow> nat \<Rightarrow> nat \<Rightarrow> string option"
  detectFakeCertificate ::
    "UploadedFile \<Rightarrow> string option \<Rightarrow> string option \<Rightarrow> js_error + MLDetectionResponse"
  uploadCertificate :: "UploadedFile \<Rightarrow> js_error + UploadResponse"
  extractText :: "UploadedFile \<Rightarrow> js_error + OCRResponse"
  verifyCertificate :: "string \<Rightarrow> js_error + VerificationResponse"

definition hex_digit :: "nat \<Rightarrow> char" where
  "hex_digit d = ''0123456789abcdef'' ! d"

text \<open>\<open>n.toString(16)\<close> for a non-negative integer.\<close>

fun toString16 :: "nat \<Rightarrow> string" where
  "toString16 n =
     (if n < 16 then [hex_digit n] else toString16 (n div 16) @ [hex_digit (n mod 16)])"

definition padStart :: "nat \<Rightarrow> char \<Rightarrow> string \<Rightarrow> string" where
  "padStart w c s = replicate (w - length s) c @ s"

definition sha256Hex :: "env \<Rightarrow> byte list \<Rightarrow> string" where
  "sha256Hex e buf =
     (case subtle_digest e of
        None \<Rightarrow> ''fallback-hash-'' @ toString16 (date_now e)
      | Some digest \<Rightarrow>
          concat (map (\<lambda>b. padStart 2 (CHR ''0'') (toString16 (unat b))) (digest buf)))"

subsection \<open>localVerification\<close>

text \<open>JavaScript truthiness of a \<open>string | null\<close>: \<open>null\<close> and the empty string are falsy.\<close>

definition truthy :: "string option \<Rightarrow> bool" where
  "truthy x = (case x of None \<Rightarrow> False | Some s \<Rightarrow> s \<noteq> [])"

text \<open>Lines 251 to 255 of \<open>localVerification\<close>: the number from the QR data, else from the
  file name.\<close>

definition inferCertificateNumber :: "VerificationResult \<Rightarrow> UploadedFile \<Rightarrow> string option" where
  "inferCertificateNumber base file =
     (let fromName = extractCertificateNumber (Some (file_name file));
          fromQr = (if truthy (qrData (metadata base))
                    then extractCertificateNumber (qrData (metadata base))
                    else None)
      in if truthy fromQr then fromQr else fromName)"

text \<open>
  \<open>localVerification\<close> reads the constant \<open>MOCK_REGISTRY\<close>; \<open>localVerificationOn\<close> is its body
  over any record set.
\<close>

definition localVerificationOn ::
  "RegistryRecord list \<Rightarrow> VerificationResult \<Rightarrow> UploadedFile \<Rightarrow> VerificationResult" where
  "localVerificationOn registry base file =
     (let certNumber = inferCertificateNumber base file;
          directHashMatch = find (\<lambda>r. hashHex r = md_hashHex (metadata base)) registry;
          numberMatches = (if truthy certNumber
                           then filter (\<lambda>r. Some (certificateNumber r) = certNumber) registry
                           else []);
          issues0 = issues base;
          (matched, st, issues1) =
            (case directHashMatch of
               Some r \<Rightarrow> (Some r, valid, issues0)
             | None \<Rightarrow>
                 if length numberMatches > 0
                 then (Some (numberMatches ! 0), suspect,
                       (issues0 @ [''Certificate number found but file hash does not match registry record''])
                       @ (if length numberMatches > 1
                          then [''Duplicate certificate number detected in registry (possible clone)'']
                          else []))
                 else (None, suspect,
                       issues0 @ [''No registry match. Please contact issuing institution for manual validation'']));
          issues2 = issues1 @ (if file_type file = [] then [''Missing file type metadata''] else []);
          issues3 = issues2 @ (if file_size file = 0 then [''Empty file content''] else [])
      in base\<lparr>status := st, issues := issues3, matchedRecord := matched\<rparr>)"

definition localVerification :: "VerificationResult \<Rightarrow> UploadedFile \<Rightarrow> VerificationResult" where
  "localVerification base file = localVerificationOn MOCK_REGISTRY base file"

subsection \<open>readQrFromImage\<close>

text \<open>The two branches of the source (\<open>OffscreenCanvas\<close> or a \<open>canvas\<close> element) run the same
  steps. \<open>code?.data || null\<close> turns an absent code and an empty payload into \<open>null\<close>.\<close>

definition readQrFromImage :: "env \<Rightarrow> UploadedFile \<Rightarrow> js_error + string option" where
  "readQrFromImage e file =
     (case createImageBitmap e file of
        Inl err \<Rightarrow> Inl err
      | Inr bitmap \<Rightarrow>
          (case getImageData e bitmap of
             Inl err \<Rightarrow> Inl err
           | Inr None \<Rightarrow> Inr None
           | Inr (Some imageData) \<Rightarrow>
               (let code = jsQR e (img_data imageData) (img_width imageData) (img_height imageData)
                in Inr (if truthy code then code else None))))"

subsection \<open>analyzeFile\<close>

text \<open>
  One run of \<open>analyzeFile\<close> is a value of \<open>run\<close>: the object \<open>base\<close> that the source mutates,
  the flag \<open>mlDetectionDone\<close>, and \<open>calls\<close>, the decoder and remote calls made so far, in
  order, each with the optional arguments it was given. \<open>calls\<close> is not in the source: it
  records the invocations so that they can be counted.
\<close>

datatype call =
    ReadQr
  | DetectFake "string option" "string option"
  | Upload
  | ExtractText
  | Verify string

record run =
  base :: VerificationResult
  mlDetectionDone :: bool
  calls :: "call list"

definition isImage :: "UploadedFile \<Rightarrow> bool" where
  "isImage file = prefix ''image/'' (file_type file)"

definition pushIssue :: "string \<Rightarrow> run \<Rightarrow> run" where
  "pushIssue s r = r\<lparr>base := (base r)\<lparr>issues := issues (base r) @ [s]\<rparr>\<rparr>"

definition invoke :: "call \<Rightarrow> run \<Rightarrow> run" where
  "invoke c r = r\<lparr>calls := calls r @ [c]\<rparr>"

text \<open>The two pictographs of the issue texts, as their UTF-8 bytes in the source file.\<close>

definition warningSign :: string where
  "warningSign = [CHR 0xE2, CHR 0x9A, CHR 0xA0, CHR 0xEF, CHR 0xB8, CHR 0x8F]"

definition checkMark :: string where
  "checkMark = [CHR 0xE2, CHR 0x9C, CHR 0x85]"

text \<open>Lines 113 to 120: the QR code, for an image.\<close>

definition qrBlock :: "env \<Rightarrow> UploadedFile \<Rightarrow> run \<Rightarrow> run" where
  "qrBlock e file r =
     (if isImage file then
        (let r1 = invoke ReadQr r in
         case readQrFromImage e file of
           Inr qr \<Rightarrow>
             if truthy qr
             then r1\<lparr>base := (base r1)\<lparr>metadata := (metadata (base r1))\<lparr>qrData := qr\<rparr>\<rparr>\<rparr>
             else r1
         | Inl err \<Rightarrow> pushIssue ''Failed to read QR code from image'' r1)
      else r)"

text \<open>Lines 134 to 146, and again lines 191 to 203: the detection result becomes an issue,
  and a confident \<open>is_fake\<close> assigns \<open>invalid\<close>.\<close>

definition addMlIssues :: "env \<Rightarrow> MLDetectionResponse \<Rightarrow> VerificationResult \<Rightarrow> VerificationResult" where
  "addMlIssues e mlResult b =
     (if success mlResult then
        (if is_fake mlResult then
           (let b1 = b\<lparr>issues := issues b @
                       [warningSign @ '' AI detected this certificate as FAKE (''
                          @ toFixed1 e (confidence mlResult * 100) @ ''% confidence)'']\<rparr>
            in if confidence mlResult > 0.8 then b1\<lparr>status := invalid\<rparr> else b1)
         else
           b\<lparr>issues := issues b @
               [checkMark @ '' AI verified certificate as AUTHENTIC (''
                  @ toFixed1 e (confidence mlResult * 100) @ ''% confidence)'']\<rparr>)
      else
        (case error_message mlResult of
           Some m \<Rightarrow>
             if m \<noteq> [] then b\<lparr>issues := issues b @ [''ML Detection error: '' @ m]\<rparr> else b
         | None \<Rightarrow> b))"

definition setMlDetection :: "MLDetectionResponse \<Rightarrow> VerificationResult \<Rightarrow> VerificationResult" where
  "setMlDetection mlResult b = b\<lparr>metadata := (metadata b)\<lparr>mlDetection := Some mlResult\<rparr>\<rparr>"

text \<open>Lines 123 to 155: the first detection, for an image, with the file alone.\<close>

definition mlFirstBlock :: "env \<Rightarrow> UploadedFile \<Rightarrow> run \<Rightarrow> run" where
  "mlFirstBlock e file r =
     (if isImage file then
        (let r1 = invoke (DetectFake None None) r in
         case detectFakeCertificate e file None None of
           Inr mlResult \<Rightarrow>
             r1\<lparr>base := addMlIssues e mlResult (setMlDetection mlResult (base r1)),
                mlDetectionDone := True\<rparr>
         | Inl err \<Rightarrow> pushIssue ''AI-powered fake detection unavailable'' r1)
      else r)"

text \<open>Lines 167 to 176: OCR, for an image.\<close>

definition ocrBlock :: "env \<Rightarrow> UploadedFile \<Rightarrow> run \<Rightarrow> run" where
  "ocrBlock e file r =
     (if isImage file then
        (let r1 = invoke ExtractText r in
         case extractText e file of
           Inr ocrResult \<Rightarrow>
             r1\<lparr>base := (base r1)\<lparr>metadata :=
                     (metadata (base r1))\<lparr>ocrText := Some (extracted_text ocrResult)\<rparr>\<rparr>\<rparr>
         | Inl err \<Rightarrow> pushIssue ''OCR text extraction failed'' r1)
      else r)"

text \<open>Lines 179 to 208: the second detection, with the OCR text and the upload id, for an
  image whose first detection did not complete.\<close>

definition mlSecondBlock :: "env \<Rightarrow> UploadedFile \<Rightarrow> UploadResponse \<Rightarrow> run \<Rightarrow> run" where
  "mlSecondBlock e file uploadResult r =
     (if isImage file \<and> \<not> mlDetectionDone r then
        (let text = ocrText (metadata (base r));
             r1 = invoke (DetectFake text (Some (up_id uploadResult))) r in
         case detectFakeCertificate e file text (Some (up_id uploadResult)) of
           Inr mlResult \<Rightarrow>
             r1\<lparr>base := addMlIssues e mlResult (setMlDetection mlResult (base r1))\<rparr>
         | Inl err \<Rightarrow> pushIssue ''AI-powered fake detection with OCR unavailable'' r1)
      else r)"

text \<open>Lines 212 to 230: the verification response merged into \<open>base\<close>.\<close>

definition mergeVerification :: "string \<Rightarrow> VerificationResponse \<Rightarrow> VerificationResult \<Rightarrow> VerificationResult" where
  "mergeVerification hash verificationResult b =
     (let b1 = b\<lparr>metadata := (metadata b)\<lparr>backendVerification := Some verificationResult\<rparr>\<rparr>;
          b2 = (if status b1 \<noteq> invalid then b1\<lparr>status := vr_status verificationResult\<rparr> else b1);
          b3 = b2\<lparr>issues := issues b2 @ vr_issues verificationResult\<rparr>
      in case matched_record verificationResult of
           Some m \<Rightarrow>
             b3\<lparr>matchedRecord := Some
                  \<lparr>certificateNumber = certificate_number m,
                   hashHex = hash,
                   name = mr_name m,
                   institution = mr_institution m,
                   course = mr_course m,
                   year = mr_year m\<rparr>\<rparr>
         | None \<Rightarrow> b3)"

text \<open>Lines 163 to 208: after a successful upload, the evidence gathered before
  \<open>verifyCertificate\<close> is called.\<close>

definition beforeVerify :: "env \<Rightarrow> UploadedFile \<Rightarrow> UploadResponse \<Rightarrow> run \<Rightarrow> run" where
  "beforeVerify e file uploadResult r =
     (let r2 = r\<lparr>base := (base r)\<lparr>metadata :=
                     (metadata (base r))\<lparr>uploadId := Some (up_id uploadResult)\<rparr>\<rparr>\<rparr>;
          r3 = ocrBlock e file r2
      in mlSecondBlock e file uploadResult r3)"

text \<open>
  Lines 158 to 232, the body of the outer \<open>try\<close>. A throw of \<open>uploadCertificate\<close> or of
  \<open>verifyCertificate\<close> leaves it with the error, and with \<open>base\<close> as mutated up to there.
\<close>

definition backendTry :: "env \<Rightarrow> UploadedFile \<Rightarrow> string \<Rightarrow> run \<Rightarrow> run \<times> js_error option" where
  "backendTry e file hash r =
     (let r1 = invoke Upload r in
      case uploadCertificate e file of
        Inl err \<Rightarrow> (r1, Some err)
      | Inr uploadResult \<Rightarrow>
          (let r4 = beforeVerify e file uploadResult r1;
               r5 = invoke (Verify (up_id uploadResult)) r4
           in case verifyCertificate e (up_id uploadResult) of
                Inl err \<Rightarrow> (r5, Some err)
              | Inr verificationResult \<Rightarrow>
                  (r5\<lparr>base := mergeVerification hash verificationResult (base r5)\<rparr>, None)))"

text \<open>Lines 101 to 110: the initial \<open>base\<close>. \<open>file.type || ""\<close> is \<open>file.type\<close>, a string.\<close>

definition initialBase :: "UploadedFile \<Rightarrow> string \<Rightarrow> VerificationResult" where
  "initialBase file hash =
     \<lparr>status = invalid,
      issues = [],
      metadata = \<lparr>fileName = file_name file, md_size = file_size file, mime = file_type file,
                  md_hashHex = hash, qrData = None, uploadId = None, ocrText = None,
                  backendVerification = None, mlDetection = None\<rparr>,
      matchedRecord = None\<rparr>"

text \<open>The state of the run when the outer \<open>try\<close> begins.\<close>

definition beforeBackend :: "env \<Rightarrow> UploadedFile \<Rightarrow> byte list \<Rightarrow> run" where
  "beforeBackend e file buf =
     mlFirstBlock e file
       (qrBlock e file
          \<lparr>base = initialBase file (sha256Hex e buf), mlDetectionDone = False, calls = []\<rparr>)"

text \<open>\<open>analyzeTrace\<close> is \<open>analyzeFile\<close> together with the calls it made. It rejects only when
  \<open>file.arrayBuffer()\<close> does.\<close>

definition analyzeTrace :: "env \<Rightarrow> UploadedFile \<Rightarrow> js_error + (VerificationResult \<times> call list)" where
  "analyzeTrace e file =
     (case arrayBuffer file of
        Inl err \<Rightarrow> Inl err
      | Inr buf \<Rightarrow>
          (case backendTry e file (sha256Hex e buf) (beforeBackend e file buf) of
             (r, None) \<Rightarrow> Inr (base r, calls r)
           | (r, Some backendError) \<Rightarrow>
               Inr (localVerification
                      (base (pushIssue ''Backend verification unavailable - using local verification'' r))
                      file,
                    calls r)))"

definition analyzeFile :: "env \<Rightarrow> UploadedFile \<Rightarrow> js_error + VerificationResult" where
  "analyzeFile e file =
     (case analyzeTrace e file of Inl err \<Rightarrow> Inl err | Inr (result, trace) \<Rightarrow> Inr result)"

subsection \<open>Shapes and counters used in the statements\<close>

text \<open>The token shape in the words of the specification: two letters, a hyphen, two
  letters, a hyphen, four digits, a hyphen, six or more digits.\<close>

fun specToken :: "string \<Rightarrow> bool" where
  "specToken (a # b # h1 # c # d # h2 # y1 # y2 # y3 # y4 # h3 # ds) =
     (is_letter a \<and> is_letter b \<and> h1 = CHR ''-'' \<and> is_letter c \<and> is_letter d \<and> h2 = CHR ''-''
      \<and> is_digit y1 \<and> is_digit y2 \<and> is_digit y3 \<and> is_digit y4 \<and> h3 = CHR ''-''
      \<and> 6 \<le> length ds \<and> list_all is_digit ds)"
| "specToken _ = False"

text \<open>The same shape with the first two letters \<open>J\<close> and \<open>H\<close>, in either case.\<close>

definition jhToken :: "string \<Rightarrow> bool" where
  "jhToken t = (specToken t \<and> take 2 t \<in> {''JH'', ''Jh'', ''jH'', ''jh''})"

text \<open>Whether a token of that shape starts at position \<open>i\<close> of the input.\<close>

definition tokenStartsAt :: "nat \<Rightarrow> string \<Rightarrow> bool" where
  "tokenStartsAt i s = list_ex (\<lambda>n. jhToken (take n (drop i s))) [0..<Suc (length s)]"

definition isDetect :: "call \<Rightarrow> bool" where
  "isDetect c = (case c of DetectFake t i \<Rightarrow> True | _ \<Rightarrow> False)"

text \<open>The text that the second detection is given: the OCR text where OCR answered.\<close>

definition ocrOutcome :: "env \<Rightarrow> UploadedFile \<Rightarrow> string option" where
  "ocrOutcome e file =
     (if isImage file
      then (case extractText e file of Inr ocrResult \<Rightarrow> Some (extracted_text ocrResult)
            | Inl err \<Rightarrow> None)
      else None)"

text \<open>The issues that the basic validation at the end of \<open>localVerification\<close> appends.\<close>

definition structuralIssues :: "UploadedFile \<Rightarrow> string list" where
  "structuralIssues file =
     (if file_type file = [] then [''Missing file type metadata''] else [])
     @ (if file_size file = 0 then [''Empty file content''] else [])"

text \<open>The records of a set that carry a given certificate number, in the order of the set.\<close>

definition sharingNumber :: "RegistryRecord list \<Rightarrow> string option \<Rightarrow> RegistryRecord list" where
  "sharingNumber registry n = filter (\<lambda>r. Some (certificateNumber r) = n) registry"

text \<open>The translation of a matched record from its wire shape, with a given fingerprint.\<close>

definition fromWire :: "string \<Rightarrow> MatchedRecordWire \<Rightarrow> RegistryRecord" where
  "fromWire hash m =
     \<lparr>certificateNumber = certificate_number m, hashHex = hash, name = mr_name m,
      institution = mr_institution m, course = mr_course m, year = mr_year m\<rparr>"

subsection \<open>Concrete files, responses and runtimes\<close>

definition pdfFile :: UploadedFile where
  "pdfFile = \<lparr>file_name = ''diploma.pdf'', file_type = ''application/pdf'', file_size = 3,
              arrayBuffer = Inr [1, 2, 3]\<rparr>"

definition pngFile :: UploadedFile where
  "pngFile = \<lparr>file_name = ''scan-jh-ru-2021-004567.png'', file_type = ''image/png'',
              file_size = 3, arrayBuffer = Inr [1, 2, 3]\<rparr>"

definition emptyPng :: UploadedFile where
  "emptyPng = \<lparr>file_name = ''blank.png'', file_type = ''image/png'', file_size = 0,
               arrayBuffer = Inr []\<rparr>"

text \<open>A stand-in for the browser's digest: on the empty input the thirty-two bytes that the
  \<open>hashHex\<close> of the first mock record spells (the SHA-256 of the empty input), and zero
  bytes elsewhere.\<close>

definition digestStub :: "byte list \<Rightarrow> byte list" where
  "digestStub buf =
     (if buf = []
      then [227, 176, 196, 66, 152, 252, 28, 20, 154, 251, 244, 200, 153, 111, 185, 36, 39,
            174, 65, 228, 100, 155, 147, 76, 164, 149, 153, 27, 120, 82, 184, 85]
      else replicate 32 0)"

definition mlFake95 :: MLDetectionResponse where
  "mlFake95 =
     \<lparr>success = True, is_fake = True, confidence = 0.95, authenticity_score = 0.05,
      prediction = 1, processing_time = 0.5, models_used = 1, individual_predictions = [],
      text_analysis = None, error_message = None, timestamp = None\<rparr>"

definition mlAuthentic :: MLDetectionResponse where
  "mlAuthentic =
     \<lparr>success = True, is_fake = False, confidence = 0.9, authenticity_score = 0.9,
      prediction = 0, processing_time = 0.5, models_used = 1, individual_predictions = [],
      text_analysis = None, error_message = None, timestamp = None\<rparr>"

definition uploadOk :: UploadResponse where
  "uploadOk = \<lparr>up_id = ''u1'', filename = ''f'', up_size = 3, mime_type = ''m'',
               upload_time = ''t'', up_status = ''stored''\<rparr>"

definition verifyValid :: VerificationResponse where
  "verifyValid =
     \<lparr>vr_id = ''v1'', vr_status = valid, vr_confidence = 1,
      matched_record = Some \<lparr>certificate_number = ''JH-RU-2021-004567'', mr_name = ''Ishita Singh'',
                              mr_institution = ''Ranchi University'', mr_course = ''B.Tech'',
                              mr_year = 2021\<rparr>,
      vr_issues = [''Registry entry confirmed''], verification_time = ''t''\<rparr>"

text \<open>A stand-in for \<open>toFixed(1)\<close>, right on the two numbers that the runs below format.\<close>

definition toFixedStub :: "real \<Rightarrow> string" where
  "toFixedStub x = (if x = 95 then ''95.0'' else if x = 90 then ''90.0'' else ''0.0'')"

text \<open>Every decoder and remote call fails; \<open>crypto.subtle\<close> is there.\<close>

definition offlineEnv :: env where
  "offlineEnv =
     \<lparr>subtle_digest = Some digestStub, date_now = 1000, toFixed1 = toFixedStub,
      createImageBitmap = (\<lambda>f. Inl (ReadError ''corrupt image'')),
      getImageData = (\<lambda>i. Inr None),
      jsQR = (\<lambda>d w h. None),
      detectFakeCertificate = (\<lambda>f t i. Inl (TransportError ''offline'')),
      uploadCertificate = (\<lambda>f. Inl (TransportError ''offline'')),
      extractText = (\<lambda>f. Inl (TransportError ''offline'')),
      verifyCertificate = (\<lambda>i. Inl (TransportError ''offline''))\<rparr>"

text \<open>Only the detection service answers, and it reports a fake with confidence 0.95.\<close>

definition detectOnlyEnv :: env where
  "detectOnlyEnv = offlineEnv\<lparr>detectFakeCertificate := (\<lambda>f t i. Inr mlFake95)\<rparr>"

text \<open>Upload and verification answer, and the registry confirms the certificate; the
  detection service is down.\<close>

definition registryEnv :: env where
  "registryEnv =
     offlineEnv\<lparr>uploadCertificate := (\<lambda>f. Inr uploadOk),
                verifyCertificate := (\<lambda>i. Inr verifyValid)\<rparr>"

text \<open>Every service answers; the detection reports an authentic certificate.\<close>

definition onlineEnv :: env where
  "onlineEnv =
     registryEnv\<lparr>detectFakeCertificate := (\<lambda>f t i. Inr mlAuthentic),
                 extractText := (\<lambda>f. Inr \<lparr>ocr_id = ''o1'', extracted_text = ''Certificate'',
                                        ocr_confidence = 0.9, ocr_processing_time = 0.1,
                                        language = ''en''\<rparr>)\<rparr>"

text \<open>Only the upload answers: OCR, both detections and the verification fail.\<close>

definition uploadOnlyEnv :: env where
  "uploadOnlyEnv = offlineEnv\<lparr>uploadCertificate := (\<lambda>f. Inr uploadOk)\<rparr>"

text \<open>Two runtimes without \<open>crypto.subtle\<close>, one millisecond apart.\<close>

definition insecureEnvA :: env where
  "insecureEnvA = offlineEnv\<lparr>subtle_digest := None\<rparr>"

definition insecureEnvB :: env where
  "insecureEnvB = offlineEnv\<lparr>subtle_digest := None, date_now := 1001\<rparr>"

text \<open>A record set with a duplicated certificate number, and one evidence bundle.\<close>

definition cloneRegistry :: "RegistryRecord list" where
  "cloneRegistry =
     [\<lparr>certificateNumber = ''JH-RU-2021-004567'', hashHex = ''aa'', name = ''Ishita Singh'',
       institution = ''Ranchi University'', course = ''B.Tech'', year = 2021\<rparr>,
      \<lparr>certificateNumber = ''JH-RU-2021-004567'', hashHex = ''bb'', name = ''Another Holder'',
       institution = ''Ranchi University'', course = ''B.Tech'', year = 2021\<rparr>]"

definition evidence :: "string \<Rightarrow> VerificationResult" where
  "evidence hash =
     \<lparr>status = invalid, issues = [''earlier issue''],
      metadata = \<lparr>fileName = ''f'', md_size = 3, mime = ''image/png'', md_hashHex = hash,
                  qrData = None, uploadId = None, ocrText = None, backendVerification = None,
                  mlDetection = None\<rparr>,
      matchedRecord = None\<rparr>"

text \<open>Evidence whose QR data holds no certificate number.\<close>

definition qrEvidence :: VerificationResult where
  "qrEvidence =
     \<lparr>status = invalid, issues = [],
      metadata = \<lparr>fileName = ''f'', md_size = 3, mime = ''image/png'', md_hashHex = ''cc'',
                  qrData = Some ''https://verify.example/c/42'', uploadId = None,
                  ocrText = None, backendVerification = None, mlDetection = None\<rparr>,
      matchedRecord = None\<rparr>"

section \<open>Properties\<close>

declare toString16.simps [simp del]

subsection \<open>The status on the way to the verification\<close>

lemma addMlIssues_keeps_invalid:
  "status b = invalid \<Longrightarrow> status (addMlIssues e ml b) = invalid"
  by (simp add: addMlIssues_def Let_def split: option.splits)

lemma qrBlock_status: "status (base (qrBlock e file r)) = status (base r)"
  by (simp add: qrBlock_def invoke_def pushIssue_def Let_def split: sum.splits)

lemma ocrBlock_status: "status (base (ocrBlock e file r)) = status (base r)"
  by (simp add: ocrBlock_def invoke_def pushIssue_def Let_def split: sum.splits)

lemma mlFirstBlock_keeps_invalid:
  "status (base r) = invalid \<Longrightarrow> status (base (mlFirstBlock e file r)) = invalid"
  by (simp add: mlFirstBlock_def invoke_def pushIssue_def setMlDetection_def Let_def
      addMlIssues_keeps_invalid split: sum.splits)

lemma mlSecondBlock_keeps_invalid:
  "status (base r) = invalid \<Longrightarrow> status (base (mlSecondBlock e file u r)) = invalid"
  by (simp add: mlSecondBlock_def invoke_def pushIssue_def setMlDetection_def Let_def
      addMlIssues_keeps_invalid split: sum.splits)

lemma beforeBackend_invalid: "status (base (beforeBackend e file buf)) = invalid"
  by (simp add: beforeBackend_def mlFirstBlock_keeps_invalid qrBlock_status initialBase_def)

lemma beforeVerify_keeps_invalid:
  "status (base r) = invalid \<Longrightarrow> status (base (beforeVerify e file u r)) = invalid"
  by (simp add: beforeVerify_def Let_def mlSecondBlock_keeps_invalid ocrBlock_status)

lemma mergeVerification_keeps_invalid:
  "status b = invalid \<Longrightarrow> status (mergeVerification h v b) = invalid"
  by (simp add: mergeVerification_def Let_def split: option.splits)

text \<open>The run whose upload and verification both answer.\<close>

lemma analyzeTrace_backend_success:
  assumes "arrayBuffer file = Inr buf" "uploadCertificate e file = Inr u"
    "verifyCertificate e (up_id u) = Inr v"
  shows "analyzeTrace e file =
    Inr (mergeVerification (sha256Hex e buf) v
           (base (beforeVerify e file u (invoke Upload (beforeBackend e file buf)))),
         calls (beforeVerify e file u (invoke Upload (beforeBackend e file buf)))
           @ [Verify (up_id u)])"
  using assms by (simp add: analyzeTrace_def backendTry_def Let_def invoke_def)

subsection \<open>The status of a run\<close>

text \<open>
  Claim C1. A first detection that reports a fake with confidence above 0.8 should make the
  result \<open>invalid\<close> whatever comes later, the local fallback included. The fallback
  assigns its own status and never reads the one in \<open>base\<close>: with only the detection
  service reachable and a report of a fake at confidence 0.95, an empty image, whose
  fingerprint is in the mock registry, comes back \<open>valid\<close>, and an image named after a
  registered number comes back \<open>suspect\<close>.
\<close>

theorem latch_lost_in_local_fallback:
  "detectFakeCertificate detectOnlyEnv emptyPng None None = Inr mlFake95
   \<and> detectFakeCertificate detectOnlyEnv pngFile None None = Inr mlFake95
   \<and> success mlFake95 \<and> is_fake mlFake95 \<and> confidence mlFake95 > 0.8
   \<and> map_sum id status (analyzeFile detectOnlyEnv emptyPng) = Inr valid
   \<and> map_sum id status (analyzeFile detectOnlyEnv pngFile) = Inr suspect"
  by code_simp

text \<open>
  Claim C2. Where upload and verification answer and no detection has reported a confident
  fake, the result should carry the status that the verification reports. For a PDF, on
  which no detection runs, and a verification that reports \<open>valid\<close>, the result is
  \<open>invalid\<close>.
\<close>

theorem remote_verdict_not_adopted:
  "\<not> isImage pdfFile
   \<and> uploadCertificate registryEnv pdfFile = Inr uploadOk
   \<and> verifyCertificate registryEnv (up_id uploadOk) = Inr verifyValid
   \<and> vr_status verifyValid = valid
   \<and> map_sum id (mlDetection \<circ> metadata) (analyzeFile registryEnv pdfFile) = Inr None
   \<and> map_sum id status (analyzeFile registryEnv pdfFile) = Inr invalid"
  by code_simp

text \<open>
  Claim C3. Whenever the file is readable and upload and verification both answer,
  \<open>analyzeFile\<close> returns a result whose status is \<open>invalid\<close>, whatever the verification
  reports: \<open>base.status\<close> starts as \<open>invalid\<close>, nothing before the verification assigns
  anything else, and the reported status is adopted only when \<open>base.status\<close> is not
  \<open>invalid\<close>.
\<close>

theorem authoritative_success_always_invalid:
  assumes "arrayBuffer file = Inr buf" "uploadCertificate e file = Inr u"
    "verifyCertificate e (up_id u) = Inr v"
  shows "\<exists>res. analyzeFile e file = Inr res \<and> status res = invalid"
proof -
  have "status (base (invoke Upload (beforeBackend e file buf))) = invalid"
    by (simp add: invoke_def beforeBackend_invalid)
  then have "status (mergeVerification (sha256Hex e buf) v
           (base (beforeVerify e file u (invoke Upload (beforeBackend e file buf))))) = invalid"
    by (intro mergeVerification_keeps_invalid beforeVerify_keeps_invalid)
  then show ?thesis
    by (simp add: analyzeFile_def analyzeTrace_backend_success [OF assms])
qed

theorem authoritative_success_always_invalid_witness:
  "arrayBuffer pngFile = Inr [1, 2, 3] \<and> uploadCertificate onlineEnv pngFile = Inr uploadOk
   \<and> verifyCertificate onlineEnv (up_id uploadOk) = Inr verifyValid
   \<and> vr_status verifyValid = valid
   \<and> (\<exists>res. analyzeFile onlineEnv pngFile = Inr res \<and> status res = invalid)"
proof -
  have a: "arrayBuffer pngFile = Inr [1, 2, 3]" by (simp add: pngFile_def)
  have b: "uploadCertificate onlineEnv pngFile = Inr uploadOk"
    by (simp add: onlineEnv_def registryEnv_def offlineEnv_def)
  have c: "verifyCertificate onlineEnv (up_id uploadOk) = Inr verifyValid"
    by (simp add: onlineEnv_def registryEnv_def offlineEnv_def)
  have d: "vr_status verifyValid = valid" by (simp add: verifyValid_def)
  from authoritative_success_always_invalid [OF a b c] a b c d show ?thesis by simp
qed

subsection \<open>The local registry matcher\<close>

lemma match_here_length: "match_here s = Some m \<Longrightarrow> 17 \<le> length m"
  by (induction s rule: match_here.induct) (auto split: if_splits)

lemma regex_match_length: "regex_match s = Some m \<Longrightarrow> 17 \<le> length m"
  by (induction s) (auto split: option.splits dest: match_here_length)

lemma extractCertificateNumber_truthy:
  "extractCertificateNumber x = Some n \<Longrightarrow> n \<noteq> []"
  by (auto simp: extractCertificateNumber_def toUpperCase_def split: option.splits if_splits
      dest: regex_match_length)

lemma inferCertificateNumber_truthy:
  "inferCertificateNumber b file = Some n \<Longrightarrow> truthy (Some n)"
  by (auto simp: inferCertificateNumber_def Let_def truthy_def split: if_splits option.splits
      dest: extractCertificateNumber_truthy)

lemma numberMatches_eq:
  "(if truthy (inferCertificateNumber b file)
    then filter (\<lambda>r. Some (certificateNumber r) = inferCertificateNumber b file) registry
    else []) = sharingNumber registry (inferCertificateNumber b file)"
proof (cases "inferCertificateNumber b file")
  case None
  then show ?thesis by (simp add: sharingNumber_def truthy_def)
next
  case (Some n)
  then show ?thesis using inferCertificateNumber_truthy [OF Some] by (simp add: sharingNumber_def)
qed

lemma find_None_iff_set: "(find P xs = None) = (\<forall>x\<in>set xs. \<not> P x)"
  by (induction xs) auto

text \<open>
  Claim C5, as the code has it. The precedence of the local matcher, over any record set
  and any evidence gathered so far. (1) If a record carries the fingerprint of the file,
  the status is \<open>valid\<close>, the matched record is the first record with that fingerprint,
  and the match adds no issue. (2) Else, if records carry the inferred certificate number,
  the status is \<open>suspect\<close>, the matched record is the first of them in the order of the
  set, the mismatch issue is added, and the duplicate issue is added exactly when more
  than one record carries the number. (3) Else the status is \<open>suspect\<close>, no record is
  matched, and the issue asking for manual validation is added. In the three cases alike
  the basic validation then adds its structural issues, for an empty media type and for a
  size of zero, and nothing else is added.
\<close>

theorem local_matcher_precedence:
  "((\<exists>r\<in>set registry. hashHex r = md_hashHex (metadata b)) \<longrightarrow>
      status (localVerificationOn registry b file) = valid
      \<and> matchedRecord (localVerificationOn registry b file)
          = find (\<lambda>r. hashHex r = md_hashHex (metadata b)) registry
      \<and> (\<exists>r\<in>set registry. hashHex r = md_hashHex (metadata b)
            \<and> matchedRecord (localVerificationOn registry b file) = Some r)
      \<and> issues (localVerificationOn registry b file) = issues b @ structuralIssues file)
   \<and> (\<not> (\<exists>r\<in>set registry. hashHex r = md_hashHex (metadata b))
        \<and> sharingNumber registry (inferCertificateNumber b file) \<noteq> [] \<longrightarrow>
      status (localVerificationOn registry b file) = suspect
      \<and> matchedRecord (localVerificationOn registry b file)
          = Some (hd (sharingNumber registry (inferCertificateNumber b file)))
      \<and> issues (localVerificationOn registry b file)
          = issues b
            @ [''Certificate number found but file hash does not match registry record'']
            @ (if 1 < length (sharingNumber registry (inferCertificateNumber b file))
               then [''Duplicate certificate number detected in registry (possible clone)'']
               else [])
            @ structuralIssues file)
   \<and> (\<not> (\<exists>r\<in>set registry. hashHex r = md_hashHex (metadata b))
        \<and> sharingNumber registry (inferCertificateNumber b file) = [] \<longrightarrow>
      status (localVerificationOn registry b file) = suspect
      \<and> matchedRecord (localVerificationOn registry b file) = None
      \<and> issues (localVerificationOn registry b file)
          = issues b
            @ [''No registry match. Please contact issuing institution for manual validation'']
            @ structuralIssues file)"
proof (intro conjI impI)
  assume "\<exists>r\<in>set registry. hashHex r = md_hashHex (metadata b)"
  then obtain r where r: "find (\<lambda>r. hashHex r = md_hashHex (metadata b)) registry = Some r"
    by (cases "find (\<lambda>r. hashHex r = md_hashHex (metadata b)) registry")
       (auto simp: find_None_iff_set)
  then have rin: "r \<in> set registry" "hashHex r = md_hashHex (metadata b)"
    by (auto simp: find_Some_iff)
  show "status (localVerificationOn registry b file) = valid"
    using r by (simp add: localVerificationOn_def Let_def)
  show "matchedRecord (localVerificationOn registry b file)
          = find (\<lambda>r. hashHex r = md_hashHex (metadata b)) registry"
    using r by (simp add: localVerificationOn_def Let_def)
  then show "\<exists>r\<in>set registry. hashHex r = md_hashHex (metadata b)
            \<and> matchedRecord (localVerificationOn registry b file) = Some r"
    using r rin by auto
  show "issues (localVerificationOn registry b file) = issues b @ structuralIssues file"
    using r by (simp add: localVerificationOn_def Let_def structuralIssues_def)
next
  assume a: "\<not> (\<exists>r\<in>set registry. hashHex r = md_hashHex (metadata b))
        \<and> sharingNumber registry (inferCertificateNumber b file) \<noteq> []"
  then have f: "find (\<lambda>r. hashHex r = md_hashHex (metadata b)) registry = None"
    by (simp add: find_None_iff_set)
  from a obtain x xs where s: "sharingNumber registry (inferCertificateNumber b file) = x # xs"
    by (cases "sharingNumber registry (inferCertificateNumber b file)") auto
  show "status (localVerificationOn registry b file) = suspect"
    using f s by (simp add: localVerificationOn_def Let_def numberMatches_eq)
  show "matchedRecord (localVerificationOn registry b file)
          = Some (hd (sharingNumber registry (inferCertificateNumber b file)))"
    using f s by (simp add: localVerificationOn_def Let_def numberMatches_eq)
  show "issues (localVerificationOn registry b file)
          = issues b
            @ [''Certificate number found but file hash does not match registry record'']
            @ (if 1 < length (sharingNumber registry (inferCertificateNumber b file))
               then [''Duplicate certificate number detected in registry (possible clone)'']
               else [])
            @ structuralIssues file"
    using f s by (simp add: localVerificationOn_def Let_def numberMatches_eq structuralIssues_def)
next
  assume a: "\<not> (\<exists>r\<in>set registry. hashHex r = md_hashHex (metadata b))
        \<and> sharingNumber registry (inferCertificateNumber b file) = []"
  then have f: "find (\<lambda>r. hashHex r = md_hashHex (metadata b)) registry = None"
    by (simp add: find_None_iff_set)
  from a have s: "sharingNumber registry (inferCertificateNumber b file) = []" by simp
  show "status (localVerificationOn registry b file) = suspect"
    using f s by (simp add: localVerificationOn_def Let_def numberMatches_eq)
  show "matchedRecord (localVerificationOn registry b file) = None"
    using f s by (simp add: localVerificationOn_def Let_def numberMatches_eq)
  show "issues (localVerificationOn registry b file)
          = issues b
            @ [''No registry match. Please contact issuing institution for manual validation'']
            @ structuralIssues file"
    using f s by (simp add: localVerificationOn_def Let_def numberMatches_eq structuralIssues_def)
qed


theorem local_matcher_precedence_witness:
  "(\<exists>r\<in>set cloneRegistry. hashHex r = md_hashHex (metadata (evidence ''bb'')))
   \<and> status (localVerificationOn cloneRegistry (evidence ''bb'') pngFile) = valid
   \<and> matchedRecord (localVerificationOn cloneRegistry (evidence ''bb'') pngFile)
       = Some (cloneRegistry ! 1)
   \<and> issues (localVerificationOn cloneRegistry (evidence ''bb'') pngFile) = [''earlier issue'']
   \<and> \<not> (\<exists>r\<in>set cloneRegistry. hashHex r = md_hashHex (metadata (evidence ''cc'')))
   \<and> length (sharingNumber cloneRegistry (inferCertificateNumber (evidence ''cc'') pngFile)) = 2
   \<and> status (localVerificationOn cloneRegistry (evidence ''cc'') pngFile) = suspect
   \<and> matchedRecord (localVerificationOn cloneRegistry (evidence ''cc'') pngFile)
       = Some (cloneRegistry ! 0)
   \<and> issues (localVerificationOn cloneRegistry (evidence ''cc'') pngFile)
       = [''earlier issue'',
          ''Certificate number found but file hash does not match registry record'',
          ''Duplicate certificate number detected in registry (possible clone)'']
   \<and> sharingNumber cloneRegistry (inferCertificateNumber (evidence ''cc'') pdfFile) = []
   \<and> status (localVerificationOn cloneRegistry (evidence ''cc'') pdfFile) = suspect
   \<and> matchedRecord (localVerificationOn cloneRegistry (evidence ''cc'') pdfFile) = None
   \<and> issues (localVerificationOn cloneRegistry (evidence ''cc'') pdfFile)
       = [''earlier issue'',
          ''No registry match. Please contact issuing institution for manual validation'']"
proof -
  let ?bb = "evidence ''bb''" and ?cc = "evidence ''cc''"
  let ?s = "sharingNumber cloneRegistry (inferCertificateNumber ?cc pngFile)"
  have h1: "\<exists>r\<in>set cloneRegistry. hashHex r = md_hashHex (metadata ?bb)"
    by code_simp
  have h2: "\<not> (\<exists>r\<in>set cloneRegistry. hashHex r = md_hashHex (metadata ?cc))"
    by code_simp
  have n2: "length ?s = 2" by code_simp
  then have s2: "?s \<noteq> []" by auto
  have s3: "sharingNumber cloneRegistry (inferCertificateNumber ?cc pdfFile) = []"
    by code_simp
  have e1: "find (\<lambda>r. hashHex r = md_hashHex (metadata ?bb)) cloneRegistry
              = Some (cloneRegistry ! 1)"
    by code_simp
  have e2: "hd ?s = cloneRegistry ! 0" by code_simp
  have i1: "issues ?bb = [''earlier issue'']" "issues ?cc = [''earlier issue'']"
    by (simp_all add: evidence_def)
  have i2: "structuralIssues pngFile = []" "structuralIssues pdfFile = []"
    by (simp_all add: structuralIssues_def pngFile_def pdfFile_def)
  from local_matcher_precedence [of cloneRegistry ?bb pngFile] h1
  have w1: "status (localVerificationOn cloneRegistry ?bb pngFile) = valid
    \<and> matchedRecord (localVerificationOn cloneRegistry ?bb pngFile) = Some (cloneRegistry ! 1)
    \<and> issues (localVerificationOn cloneRegistry ?bb pngFile) = [''earlier issue'']"
    by (simp add: e1 i1 i2)
  from local_matcher_precedence [of cloneRegistry ?cc pngFile] h2 s2
  have w2: "status (localVerificationOn cloneRegistry ?cc pngFile) = suspect
    \<and> matchedRecord (localVerificationOn cloneRegistry ?cc pngFile) = Some (cloneRegistry ! 0)
    \<and> issues (localVerificationOn cloneRegistry ?cc pngFile)
       = [''earlier issue'',
          ''Certificate number found but file hash does not match registry record'',
          ''Duplicate certificate number detected in registry (possible clone)'']"
    by (simp add: e2 i1 i2 n2)
  from local_matcher_precedence [of cloneRegistry ?cc pdfFile] h2 s3
  have w3: "status (localVerificationOn cloneRegistry ?cc pdfFile) = suspect
    \<and> matchedRecord (localVerificationOn cloneRegistry ?cc pdfFile) = None
    \<and> issues (localVerificationOn cloneRegistry ?cc pdfFile)
       = [''earlier issue'',
          ''No registry match. Please contact issuing institution for manual validation'']"
    by (simp add: i1 i2)
  from h1 h2 n2 s3 w1 w2 w3 show ?thesis by blast
qed

text \<open>
  Claim C5, as the specification has it, says that a fingerprint match leaves the issues
  as they were. For an empty file, whose fingerprint is that of the first mock record, the
  fallback gives \<open>valid\<close> and adds the issue of the empty content.
\<close>

theorem local_matcher_empty_file_counterexample:
  "(\<exists>r\<in>set MOCK_REGISTRY.
       hashHex r = md_hashHex (metadata (initialBase emptyPng (sha256Hex offlineEnv []))))
   \<and> status (localVerification (initialBase emptyPng (sha256Hex offlineEnv [])) emptyPng) = valid
   \<and> matchedRecord (localVerification (initialBase emptyPng (sha256Hex offlineEnv [])) emptyPng)
       = Some (MOCK_REGISTRY ! 0)
   \<and> issues (initialBase emptyPng (sha256Hex offlineEnv [])) = []
   \<and> issues (localVerification (initialBase emptyPng (sha256Hex offlineEnv [])) emptyPng)
       = [''Empty file content'']"
  by code_simp

text \<open>
  Claim C6. The local matcher never gives \<open>invalid\<close>: over any record set, and over the
  mock registry that the code reads, the status is \<open>valid\<close> or \<open>suspect\<close>.
\<close>

theorem local_matcher_never_invalid:
  "(status (localVerificationOn registry b file) = valid
     \<or> status (localVerificationOn registry b file) = suspect)
   \<and> (status (localVerification b file) = valid
     \<or> status (localVerification b file) = suspect)"
  by (simp add: localVerification_def localVerificationOn_def Let_def split: option.splits)


subsection \<open>The calls of a run\<close>

lemma qrBlock_calls_detect: "filter isDetect (calls (qrBlock e file r)) = filter isDetect (calls r)"
  by (simp add: qrBlock_def invoke_def pushIssue_def isDetect_def Let_def split: sum.splits)

lemma qrBlock_done: "mlDetectionDone (qrBlock e file r) = mlDetectionDone r"
  by (simp add: qrBlock_def invoke_def pushIssue_def Let_def split: sum.splits)

lemma ocrBlock_calls_detect: "filter isDetect (calls (ocrBlock e file r)) = filter isDetect (calls r)"
  by (simp add: ocrBlock_def invoke_def pushIssue_def isDetect_def Let_def split: sum.splits)

lemma ocrBlock_done: "mlDetectionDone (ocrBlock e file r) = mlDetectionDone r"
  by (simp add: ocrBlock_def invoke_def pushIssue_def Let_def split: sum.splits)

lemma mlFirstBlock_success:
  assumes "detectFakeCertificate e file None None = Inr ml"
  shows "mlDetectionDone (mlFirstBlock e file r) = (isImage file \<or> mlDetectionDone r)"
    and "filter isDetect (calls (mlFirstBlock e file r))
         = filter isDetect (calls r) @ (if isImage file then [DetectFake None None] else [])"
  using assms by (simp_all add: mlFirstBlock_def invoke_def isDetect_def Let_def)

lemma mlSecondBlock_skipped:
  "\<not> isImage file \<or> mlDetectionDone r \<Longrightarrow> mlSecondBlock e file u r = r"
  by (auto simp: mlSecondBlock_def)

lemma beforeBackend_detect:
  assumes "detectFakeCertificate e file None None = Inr ml"
  shows "filter isDetect (calls (beforeBackend e file buf))
          = (if isImage file then [DetectFake None None] else [])"
    and "mlDetectionDone (beforeBackend e file buf) = isImage file"
  using assms
  by (simp_all add: beforeBackend_def mlFirstBlock_success qrBlock_calls_detect qrBlock_done)

lemma beforeVerify_detect:
  assumes "\<not> isImage file \<or> mlDetectionDone r"
  shows "filter isDetect (calls (beforeVerify e file u r)) = filter isDetect (calls r)"
proof -
  have "\<not> isImage file \<or> mlDetectionDone (ocrBlock e file
      (r\<lparr>base := (base r)\<lparr>metadata := (metadata (base r))\<lparr>uploadId := Some (up_id u)\<rparr>\<rparr>\<rparr>))"
    using assms by (simp add: ocrBlock_done)
  then show ?thesis
    by (simp add: beforeVerify_def Let_def mlSecondBlock_skipped ocrBlock_calls_detect)
qed

lemma backendTry_detect:
  assumes "\<not> isImage file \<or> mlDetectionDone r"
  shows "filter isDetect (calls (fst (backendTry e file h r))) = filter isDetect (calls r)"
proof -
  have "\<not> isImage file \<or> mlDetectionDone (invoke Upload r)"
    using assms by (simp add: invoke_def)
  from beforeVerify_detect [OF this] show ?thesis
    by (simp add: backendTry_def Let_def invoke_def isDetect_def split: sum.splits)
qed

lemma analyzeTrace_calls:
  "arrayBuffer file = Inr buf \<Longrightarrow>
   map_sum id snd (analyzeTrace e file)
     = Inr (calls (fst (backendTry e file (sha256Hex e buf) (beforeBackend e file buf))))"
  by (simp add: analyzeTrace_def split: prod.splits option.splits)

text \<open>
  Claim C7. In a run whose first detection, the one before OCR, completes without
  throwing, the second call site does not call the detection: the detections among the
  calls of the run are that first one alone for an image, and none for another file. So
  the detection runs at most once in such a run.
\<close>

theorem detectForgery_at_most_once:
  assumes "detectFakeCertificate e file None None = Inr ml"
    and "analyzeTrace e file = Inr (res, trace)"
  shows "filter isDetect trace = (if isImage file then [DetectFake None None] else [])
         \<and> length (filter isDetect trace) \<le> 1"
proof -
  from assms(2) obtain buf where buf: "arrayBuffer file = Inr buf"
    by (cases "arrayBuffer file") (auto simp: analyzeTrace_def)
  have d: "\<not> isImage file \<or> mlDetectionDone (beforeBackend e file buf)"
    using beforeBackend_detect(2) [OF assms(1)] by simp
  from analyzeTrace_calls [OF buf, of e] assms(2)
  have "trace = calls (fst (backendTry e file (sha256Hex e buf) (beforeBackend e file buf)))"
    by simp
  then have "filter isDetect trace = filter isDetect (calls (beforeBackend e file buf))"
    using backendTry_detect [OF d] by simp
  then show ?thesis using beforeBackend_detect(1) [OF assms(1)] by simp
qed

theorem detectForgery_at_most_once_witness:
  "detectFakeCertificate onlineEnv pngFile None None = Inr mlAuthentic
   \<and> map_sum id snd (analyzeTrace onlineEnv pngFile)
       = Inr [ReadQr, DetectFake None None, Upload, ExtractText, Verify ''u1'']
   \<and> (\<exists>res trace. analyzeTrace onlineEnv pngFile = Inr (res, trace)
         \<and> filter isDetect trace = [DetectFake None None]
         \<and> length (filter isDetect trace) \<le> 1)"
proof -
  have d: "detectFakeCertificate onlineEnv pngFile None None = Inr mlAuthentic"
    by (simp add: onlineEnv_def registryEnv_def offlineEnv_def)
  have t: "map_sum id snd (analyzeTrace onlineEnv pngFile)
       = Inr [ReadQr, DetectFake None None, Upload, ExtractText, Verify ''u1'']"
    by code_simp
  then obtain res trace where r: "analyzeTrace onlineEnv pngFile = Inr (res, trace)"
    by (cases "analyzeTrace onlineEnv pngFile") auto
  have i: "isImage pngFile" by code_simp
  from detectForgery_at_most_once [OF d r] i
  have "filter isDetect trace = [DetectFake None None] \<and> length (filter isDetect trace) \<le> 1"
    by simp
  with d t r show ?thesis by blast
qed

subsection \<open>The merge of the verification response\<close>

text \<open>What the blocks before the verification leave untouched.\<close>

lemma addMlIssues_keeps:
  "matchedRecord (addMlIssues e ml b) = matchedRecord b"
  "metadata (addMlIssues e ml b) = metadata b"
  by (simp_all add: addMlIssues_def Let_def split: option.splits)

lemma qrBlock_keeps:
  "matchedRecord (base (qrBlock e file r)) = matchedRecord (base r)"
  "md_hashHex (metadata (base (qrBlock e file r))) = md_hashHex (metadata (base r))"
  "ocrText (metadata (base (qrBlock e file r))) = ocrText (metadata (base r))"
  by (simp_all add: qrBlock_def invoke_def pushIssue_def Let_def split: sum.splits)

lemma mlFirstBlock_keeps:
  "matchedRecord (base (mlFirstBlock e file r)) = matchedRecord (base r)"
  "md_hashHex (metadata (base (mlFirstBlock e file r))) = md_hashHex (metadata (base r))"
  "ocrText (metadata (base (mlFirstBlock e file r))) = ocrText (metadata (base r))"
  by (simp_all add: mlFirstBlock_def invoke_def pushIssue_def setMlDetection_def Let_def
      addMlIssues_keeps split: sum.splits)

lemma ocrBlock_keeps:
  "matchedRecord (base (ocrBlock e file r)) = matchedRecord (base r)"
  "md_hashHex (metadata (base (ocrBlock e file r))) = md_hashHex (metadata (base r))"
  by (simp_all add: ocrBlock_def invoke_def pushIssue_def Let_def split: sum.splits)

lemma mlSecondBlock_keeps:
  "matchedRecord (base (mlSecondBlock e file u r)) = matchedRecord (base r)"
  "md_hashHex (metadata (base (mlSecondBlock e file u r))) = md_hashHex (metadata (base r))"
  by (simp_all add: mlSecondBlock_def invoke_def pushIssue_def setMlDetection_def Let_def
      addMlIssues_keeps split: sum.splits)

lemma beforeBackend_keeps:
  "matchedRecord (base (beforeBackend e file buf)) = None"
  "md_hashHex (metadata (base (beforeBackend e file buf))) = sha256Hex e buf"
  "ocrText (metadata (base (beforeBackend e file buf))) = None"
  by (simp_all add: beforeBackend_def mlFirstBlock_keeps qrBlock_keeps initialBase_def)

lemma beforeVerify_keeps:
  "matchedRecord (base (beforeVerify e file u r)) = matchedRecord (base r)"
  "md_hashHex (metadata (base (beforeVerify e file u r))) = md_hashHex (metadata (base r))"
  by (simp_all add: beforeVerify_def Let_def mlSecondBlock_keeps ocrBlock_keeps)

lemma mergeVerification_result:
  "issues (mergeVerification h v b) = issues b @ vr_issues v"
  "matchedRecord (mergeVerification h v b)
     = (case matched_record v of Some m \<Rightarrow> Some (fromWire h m) | None \<Rightarrow> matchedRecord b)"
  "md_hashHex (metadata (mergeVerification h v b)) = md_hashHex (metadata b)"
  by (simp_all add: mergeVerification_def fromWire_def Let_def split: option.splits)

text \<open>Nothing before the verification reads \<open>verifyCertificate\<close>.\<close>

lemma sha_irr: "sha256Hex (e\<lparr>verifyCertificate := f\<rparr>) buf = sha256Hex e buf"
  by (simp add: sha256Hex_def split: option.splits)
lemma readQr_irr: "readQrFromImage (e\<lparr>verifyCertificate := f\<rparr>) file = readQrFromImage e file"
  by (simp add: readQrFromImage_def Let_def split: sum.splits option.splits)
lemma addMl_irr: "addMlIssues (e\<lparr>verifyCertificate := f\<rparr>) ml b = addMlIssues e ml b"
  by (simp add: addMlIssues_def Let_def split: option.splits)
lemma qr_irr: "qrBlock (e\<lparr>verifyCertificate := f\<rparr>) file r = qrBlock e file r"
  by (simp add: qrBlock_def readQr_irr)
lemma ml1_irr: "mlFirstBlock (e\<lparr>verifyCertificate := f\<rparr>) file r = mlFirstBlock e file r"
  by (simp add: mlFirstBlock_def addMl_irr Let_def split: sum.splits)
lemma ocr_irr: "ocrBlock (e\<lparr>verifyCertificate := f\<rparr>) file r = ocrBlock e file r"
  by (simp add: ocrBlock_def Let_def split: sum.splits)
lemma ml2_irr: "mlSecondBlock (e\<lparr>verifyCertificate := f\<rparr>) file u r = mlSecondBlock e file u r"
  by (simp add: mlSecondBlock_def addMl_irr Let_def split: sum.splits)
lemma verify_irrelevant:
  "beforeVerify (e\<lparr>verifyCertificate := f\<rparr>) file u
     (invoke Upload (beforeBackend (e\<lparr>verifyCertificate := f\<rparr>) file buf))
    = beforeVerify e file u (invoke Upload (beforeBackend e file buf))"
  by (simp add: beforeVerify_def beforeBackend_def sha_irr qr_irr ml1_irr ocr_irr ml2_irr)

text \<open>
  Claim C10. Where upload and verification both answer, the issues of the result are the
  issues gathered before the verification, which do not depend on what the verification
  answers, followed by the issues of the verification response; and the matched record of
  the result is the matched record of the response, if it has one, in the local shape with
  the fingerprint computed from the file, which is also the fingerprint in the metadata.
\<close>

theorem authoritative_merge_issues_and_record:
  assumes "arrayBuffer file = Inr buf" "uploadCertificate e file = Inr u"
    "verifyCertificate e (up_id u) = Inr v"
  shows "\<exists>res. analyzeFile e file = Inr res
     \<and> issues res
         = issues (base (beforeVerify e file u (invoke Upload (beforeBackend e file buf))))
           @ vr_issues v
     \<and> (\<forall>f. issues (base (beforeVerify (e\<lparr>verifyCertificate := f\<rparr>) file u
                 (invoke Upload (beforeBackend (e\<lparr>verifyCertificate := f\<rparr>) file buf))))
             = issues (base (beforeVerify e file u (invoke Upload (beforeBackend e file buf)))))
     \<and> matchedRecord res = map_option (fromWire (sha256Hex e buf)) (matched_record v)
     \<and> md_hashHex (metadata res) = sha256Hex e buf"
proof -
  let ?r = "beforeVerify e file u (invoke Upload (beforeBackend e file buf))"
  have m: "matchedRecord (base ?r) = None"
    by (simp add: beforeVerify_keeps invoke_def beforeBackend_keeps)
  have h: "md_hashHex (metadata (base ?r)) = sha256Hex e buf"
    by (simp add: beforeVerify_keeps invoke_def beforeBackend_keeps)
  have "analyzeFile e file = Inr (mergeVerification (sha256Hex e buf) v (base ?r))"
    by (simp add: analyzeFile_def analyzeTrace_backend_success [OF assms])
  then show ?thesis
    by (simp add: mergeVerification_result m h verify_irrelevant split: option.splits)
qed

theorem authoritative_merge_issues_and_record_witness:
  "arrayBuffer pngFile = Inr [1, 2, 3] \<and> uploadCertificate onlineEnv pngFile = Inr uploadOk
   \<and> verifyCertificate onlineEnv (up_id uploadOk) = Inr verifyValid
   \<and> issues (base (beforeVerify onlineEnv pngFile uploadOk
                       (invoke Upload (beforeBackend onlineEnv pngFile [1, 2, 3]))))
       = [''Failed to read QR code from image'',
          checkMark @ '' AI verified certificate as AUTHENTIC (90.0% confidence)'']
   \<and> (\<exists>res. analyzeFile onlineEnv pngFile = Inr res
         \<and> issues res
             = [''Failed to read QR code from image'',
                checkMark @ '' AI verified certificate as AUTHENTIC (90.0% confidence)'',
                ''Registry entry confirmed'']
         \<and> matchedRecord res
             = Some \<lparr>certificateNumber = ''JH-RU-2021-004567'',
                     hashHex = sha256Hex onlineEnv [1, 2, 3],
                     name = ''Ishita Singh'', institution = ''Ranchi University'',
                     course = ''B.Tech'', year = 2021\<rparr>)"
proof -
  have a: "arrayBuffer pngFile = Inr [1, 2, 3]" by (simp add: pngFile_def)
  have b: "uploadCertificate onlineEnv pngFile = Inr uploadOk"
    by (simp add: onlineEnv_def registryEnv_def offlineEnv_def)
  have c: "verifyCertificate onlineEnv (up_id uploadOk) = Inr verifyValid"
    by (simp add: onlineEnv_def registryEnv_def offlineEnv_def)
  have l: "issues (base (beforeVerify onlineEnv pngFile uploadOk
                       (invoke Upload (beforeBackend onlineEnv pngFile [1, 2, 3]))))
       = [''Failed to read QR code from image'',
          checkMark @ '' AI verified certificate as AUTHENTIC (90.0% confidence)'']"
    by code_simp
  have v: "vr_issues verifyValid = [''Registry entry confirmed'']"
    "matched_record verifyValid
      = Some \<lparr>certificate_number = ''JH-RU-2021-004567'', mr_name = ''Ishita Singh'',
               mr_institution = ''Ranchi University'', mr_course = ''B.Tech'',
               mr_year = 2021\<rparr>"
    by (simp_all add: verifyValid_def)
  from authoritative_merge_issues_and_record [OF a b c]
  obtain res where "analyzeFile onlineEnv pngFile = Inr res"
    and "issues res = issues (base (beforeVerify onlineEnv pngFile uploadOk
            (invoke Upload (beforeBackend onlineEnv pngFile [1, 2, 3])))) @ vr_issues verifyValid"
    and "matchedRecord res
          = map_option (fromWire (sha256Hex onlineEnv [1, 2, 3])) (matched_record verifyValid)"
    by blast
  then have "analyzeFile onlineEnv pngFile = Inr res
         \<and> issues res
             = [''Failed to read QR code from image'',
                checkMark @ '' AI verified certificate as AUTHENTIC (90.0% confidence)'',
                ''Registry entry confirmed'']
         \<and> matchedRecord res
             = Some \<lparr>certificateNumber = ''JH-RU-2021-004567'',
                     hashHex = sha256Hex onlineEnv [1, 2, 3],
                     name = ''Ishita Singh'', institution = ''Ranchi University'',
                     course = ''B.Tech'', year = 2021\<rparr>"
    by (simp add: l v fromWire_def)
  with a b c l show ?thesis by blast
qed

subsection \<open>Totality and failures\<close>

text \<open>The issues of a run only grow.\<close>

lemma addMlIssues_grows: "prefix (issues b) (issues (addMlIssues e ml b))"
  by (simp add: addMlIssues_def Let_def split: option.splits)

lemma qrBlock_grows: "prefix (issues (base r)) (issues (base (qrBlock e file r)))"
  by (simp add: qrBlock_def invoke_def pushIssue_def Let_def split: sum.splits)

lemma mlFirstBlock_grows: "prefix (issues (base r)) (issues (base (mlFirstBlock e file r)))"
  using addMlIssues_grows [of "setMlDetection ml (base r)" for ml]
  by (simp add: mlFirstBlock_def invoke_def pushIssue_def setMlDetection_def Let_def
      split: sum.splits)

lemma ocrBlock_grows: "prefix (issues (base r)) (issues (base (ocrBlock e file r)))"
  by (simp add: ocrBlock_def invoke_def pushIssue_def Let_def split: sum.splits)

lemma mlSecondBlock_grows:
  "prefix (issues (base r)) (issues (base (mlSecondBlock e file u r)))"
  using addMlIssues_grows [of "setMlDetection ml (base r)" for ml]
  by (simp add: mlSecondBlock_def invoke_def pushIssue_def setMlDetection_def Let_def
      split: sum.splits)

lemma beforeVerify_grows:
  "prefix (issues (base r)) (issues (base (beforeVerify e file u r)))"
proof -
  let ?r2 = "r\<lparr>base := (base r)\<lparr>metadata := (metadata (base r))\<lparr>uploadId := Some (up_id u)\<rparr>\<rparr>\<rparr>"
  have "prefix (issues (base ?r2)) (issues (base (ocrBlock e file ?r2)))"
    by (rule ocrBlock_grows)
  moreover have "prefix (issues (base (ocrBlock e file ?r2)))
      (issues (base (mlSecondBlock e file u (ocrBlock e file ?r2))))"
    by (rule mlSecondBlock_grows)
  ultimately show ?thesis by (auto simp: beforeVerify_def Let_def)
qed

lemma localVerificationOn_grows:
  "prefix (issues b) (issues (localVerificationOn registry b file))"
  by (simp add: localVerificationOn_def Let_def split: option.splits)

lemma mergeVerification_grows: "prefix (issues b) (issues (mergeVerification h v b))"
  by (simp add: mergeVerification_def Let_def split: option.splits)

text \<open>A failure leaves its issue.\<close>

lemma qrBlock_failure:
  "isImage file \<Longrightarrow> isl (readQrFromImage e file) \<Longrightarrow>
   ''Failed to read QR code from image'' \<in> set (issues (base (qrBlock e file r)))"
  by (auto simp: qrBlock_def invoke_def pushIssue_def Let_def split: sum.splits)

lemma mlFirstBlock_failure:
  assumes "isImage file" "isl (detectFakeCertificate e file None None)"
  shows "''AI-powered fake detection unavailable'' \<in> set (issues (base (mlFirstBlock e file r)))"
    and "mlDetectionDone (mlFirstBlock e file r) = mlDetectionDone r"
  using assms
  by (auto simp: mlFirstBlock_def invoke_def pushIssue_def Let_def split: sum.splits)

lemma ocrBlock_failure:
  "isImage file \<Longrightarrow> isl (extractText e file) \<Longrightarrow>
   ''OCR text extraction failed'' \<in> set (issues (base (ocrBlock e file r)))"
  by (auto simp: ocrBlock_def invoke_def pushIssue_def Let_def split: sum.splits)

lemma ocrBlock_text:
  "ocrText (metadata (base r)) = None \<Longrightarrow>
   ocrText (metadata (base (ocrBlock e file r))) = ocrOutcome e file"
  by (simp add: ocrBlock_def ocrOutcome_def invoke_def pushIssue_def Let_def split: sum.splits)

lemma mlSecondBlock_failure:
  "isImage file \<Longrightarrow> \<not> mlDetectionDone r \<Longrightarrow>
   isl (detectFakeCertificate e file (ocrText (metadata (base r))) (Some (up_id u))) \<Longrightarrow>
   ''AI-powered fake detection with OCR unavailable''
     \<in> set (issues (base (mlSecondBlock e file u r)))"
  by (auto simp: mlSecondBlock_def invoke_def pushIssue_def Let_def split: sum.splits)

lemmas grows_set = set_mono_prefix [THEN subsetD]

lemma beforeBackend_failures:
  "isImage file \<Longrightarrow> isl (readQrFromImage e file) \<Longrightarrow>
     ''Failed to read QR code from image'' \<in> set (issues (base (beforeBackend e file buf)))"
  "isImage file \<Longrightarrow> isl (detectFakeCertificate e file None None) \<Longrightarrow>
     ''AI-powered fake detection unavailable'' \<in> set (issues (base (beforeBackend e file buf)))"
  "isImage file \<Longrightarrow> isl (detectFakeCertificate e file None None) \<Longrightarrow>
     \<not> mlDetectionDone (beforeBackend e file buf)"
proof -
  let ?r0 = "\<lparr>base = initialBase file (sha256Hex e buf), mlDetectionDone = False, calls = []\<rparr>"
  show "isImage file \<Longrightarrow> isl (readQrFromImage e file) \<Longrightarrow>
     ''Failed to read QR code from image'' \<in> set (issues (base (beforeBackend e file buf)))"
    unfolding beforeBackend_def
    by (rule grows_set [OF mlFirstBlock_grows]) (rule qrBlock_failure)
  show "isImage file \<Longrightarrow> isl (detectFakeCertificate e file None None) \<Longrightarrow>
     ''AI-powered fake detection unavailable'' \<in> set (issues (base (beforeBackend e file buf)))"
    unfolding beforeBackend_def by (rule mlFirstBlock_failure)
  show "isImage file \<Longrightarrow> isl (detectFakeCertificate e file None None) \<Longrightarrow>
     \<not> mlDetectionDone (beforeBackend e file buf)"
    unfolding beforeBackend_def
    by (simp add: mlFirstBlock_failure(2) qrBlock_done)
qed


lemma beforeVerify_failures:
  assumes "isImage file"
  shows "isl (extractText e file) \<Longrightarrow>
      ''OCR text extraction failed'' \<in> set (issues (base (beforeVerify e file u r)))"
    and "\<not> mlDetectionDone r \<Longrightarrow> ocrText (metadata (base r)) = None \<Longrightarrow>
      isl (detectFakeCertificate e file (ocrOutcome e file) (Some (up_id u))) \<Longrightarrow>
      ''AI-powered fake detection with OCR unavailable''
        \<in> set (issues (base (beforeVerify e file u r)))"
proof -
  let ?r2 = "r\<lparr>base := (base r)\<lparr>metadata := (metadata (base r))\<lparr>uploadId := Some (up_id u)\<rparr>\<rparr>\<rparr>"
  have bv: "beforeVerify e file u r = mlSecondBlock e file u (ocrBlock e file ?r2)"
    by (simp add: beforeVerify_def Let_def)
  show "isl (extractText e file) \<Longrightarrow>
      ''OCR text extraction failed'' \<in> set (issues (base (beforeVerify e file u r)))"
    unfolding bv
    by (rule grows_set [OF mlSecondBlock_grows]) (rule ocrBlock_failure [OF assms])
  assume d: "\<not> mlDetectionDone r" and t: "ocrText (metadata (base r)) = None"
    and f: "isl (detectFakeCertificate e file (ocrOutcome e file) (Some (up_id u)))"
  have "ocrText (metadata (base (ocrBlock e file ?r2))) = ocrOutcome e file"
    using t by (simp add: ocrBlock_text)
  moreover have "\<not> mlDetectionDone (ocrBlock e file ?r2)"
    using d by (simp add: ocrBlock_done)
  ultimately show "''AI-powered fake detection with OCR unavailable''
        \<in> set (issues (base (beforeVerify e file u r)))"
    unfolding bv using f assms by (simp add: mlSecondBlock_failure)
qed

lemma analyzeFile_upload_failure:
  assumes "arrayBuffer file = Inr buf" "isl (uploadCertificate e file)"
  shows "analyzeFile e file =
    Inr (localVerification
           (base (pushIssue ''Backend verification unavailable - using local verification''
                    (invoke Upload (beforeBackend e file buf)))) file)"
  using assms
  by (cases "uploadCertificate e file")
     (simp_all add: analyzeFile_def analyzeTrace_def backendTry_def Let_def)

lemma analyzeFile_verify_failure:
  assumes "arrayBuffer file = Inr buf" "uploadCertificate e file = Inr u"
    "isl (verifyCertificate e (up_id u))"
  shows "analyzeFile e file =
    Inr (localVerification
           (base (pushIssue ''Backend verification unavailable - using local verification''
                    (invoke (Verify (up_id u))
                       (beforeVerify e file u (invoke Upload (beforeBackend e file buf)))))) file)"
  using assms
  by (cases "verifyCertificate e (up_id u)")
     (simp_all add: analyzeFile_def analyzeTrace_def backendTry_def Let_def)

lemma analyzeFile_success:
  assumes "arrayBuffer file = Inr buf" "uploadCertificate e file = Inr u"
    "verifyCertificate e (up_id u) = Inr v"
  shows "analyzeFile e file =
    Inr (mergeVerification (sha256Hex e buf) v
           (base (beforeVerify e file u (invoke Upload (beforeBackend e file buf)))))"
  by (simp add: analyzeFile_def analyzeTrace_backend_success [OF assms])

text \<open>The fallback keeps the issues it is given, adds the one of the failed backend before
  them, and gives \<open>valid\<close> or \<open>suspect\<close>.\<close>

lemma fallback_result:
  "set (issues (base r)) \<subseteq>
     set (issues (localVerification
        (base (pushIssue ''Backend verification unavailable - using local verification'' r)) file))"
  "''Backend verification unavailable - using local verification''
     \<in> set (issues (localVerification
        (base (pushIssue ''Backend verification unavailable - using local verification'' r)) file))"
  "status (localVerification b file) = valid \<or> status (localVerification b file) = suspect"
proof -
  let ?m = "''Backend verification unavailable - using local verification''"
  have p: "prefix (issues (base (pushIssue ?m r)))
             (issues (localVerification (base (pushIssue ?m r)) file))"
    unfolding localVerification_def by (rule localVerificationOn_grows)
  have i: "issues (base (pushIssue ?m r)) = issues (base r) @ [?m]"
    by (simp add: pushIssue_def)
  from set_mono_prefix [OF p] i
  show "set (issues (base r)) \<subseteq> set (issues (localVerification (base (pushIssue ?m r)) file))"
    and "?m \<in> set (issues (localVerification (base (pushIssue ?m r)) file))"
    by auto
  show "status (localVerification b file) = valid \<or> status (localVerification b file) = suspect"
    by (simp add: localVerification_def localVerificationOn_def Let_def split: option.splits)
qed

text \<open>
  Claim C4. For a file whose bytes can be read, \<open>analyzeFile\<close> returns a result, whatever
  the decoder and the four remote calls do. Each failure leaves its issue in the result:
  of the QR decoder and of the first detection, for an image; of the upload; and, after an
  upload that answered, of OCR and of the second detection, for an image, and of the
  verification. Where the upload fails, as it does when every remote call fails, or the
  verification fails, the status is \<open>valid\<close> or \<open>suspect\<close>, from the local fallback.
\<close>

theorem analyzeFile_total:
  assumes "arrayBuffer file = Inr buf"
  shows "\<exists>res. analyzeFile e file = Inr res
    \<and> (isImage file \<and> isl (readQrFromImage e file) \<longrightarrow>
          ''Failed to read QR code from image'' \<in> set (issues res))
    \<and> (isImage file \<and> isl (detectFakeCertificate e file None None) \<longrightarrow>
          ''AI-powered fake detection unavailable'' \<in> set (issues res))
    \<and> (isl (uploadCertificate e file) \<longrightarrow>
          ''Backend verification unavailable - using local verification'' \<in> set (issues res)
          \<and> (status res = valid \<or> status res = suspect))
    \<and> (\<forall>u. uploadCertificate e file = Inr u \<longrightarrow>
          (isImage file \<and> isl (extractText e file) \<longrightarrow>
             ''OCR text extraction failed'' \<in> set (issues res))
          \<and> (isImage file \<and> isl (detectFakeCertificate e file None None)
               \<and> isl (detectFakeCertificate e file (ocrOutcome e file) (Some (up_id u))) \<longrightarrow>
             ''AI-powered fake detection with OCR unavailable'' \<in> set (issues res))
          \<and> (isl (verifyCertificate e (up_id u)) \<longrightarrow>
             ''Backend verification unavailable - using local verification'' \<in> set (issues res)
             \<and> (status res = valid \<or> status res = suspect)))"
proof -
  let ?bb = "beforeBackend e file buf"
  let ?m = "''Backend verification unavailable - using local verification''"
  have bb_qr: "isImage file \<and> isl (readQrFromImage e file) \<longrightarrow>
      ''Failed to read QR code from image'' \<in> set (issues (base ?bb))"
    by (simp add: beforeBackend_failures)
  have bb_ml: "isImage file \<and> isl (detectFakeCertificate e file None None) \<longrightarrow>
      ''AI-powered fake detection unavailable'' \<in> set (issues (base ?bb))"
    by (simp add: beforeBackend_failures)
  show ?thesis
  proof (cases "uploadCertificate e file")
    case (Inl err)
    then have up: "isl (uploadCertificate e file)" by simp
    let ?res = "localVerification (base (pushIssue ?m (invoke Upload ?bb))) file"
    have r: "analyzeFile e file = Inr ?res"
      by (rule analyzeFile_upload_failure [OF assms up])
    have sub: "set (issues (base ?bb)) \<subseteq> set (issues ?res)"
      using fallback_result(1) [of "invoke Upload ?bb" "file"] by (simp add: invoke_def)
    have "?m \<in> set (issues ?res)" by (rule fallback_result(2))
    moreover have "status ?res = valid \<or> status ?res = suspect" by (rule fallback_result(3))
    ultimately show ?thesis using r sub bb_qr bb_ml Inl by auto
  next
    case (Inr u)
    let ?bv = "beforeVerify e file u (invoke Upload ?bb)"
    have g: "set (issues (base ?bb)) \<subseteq> set (issues (base ?bv))"
      using set_mono_prefix [OF beforeVerify_grows [of "invoke Upload ?bb" e "file" u]]
      by (simp add: invoke_def)
    have bv_ocr: "isImage file \<and> isl (extractText e file) \<longrightarrow>
        ''OCR text extraction failed'' \<in> set (issues (base ?bv))"
      by (simp add: beforeVerify_failures(1))
    have bv_ml: "isImage file \<and> isl (detectFakeCertificate e file None None)
        \<and> isl (detectFakeCertificate e file (ocrOutcome e file) (Some (up_id u))) \<longrightarrow>
        ''AI-powered fake detection with OCR unavailable'' \<in> set (issues (base ?bv))"
    proof (intro impI, elim conjE)
      assume i: "isImage file" and f1: "isl (detectFakeCertificate e file None None)"
        and f2: "isl (detectFakeCertificate e file (ocrOutcome e file) (Some (up_id u)))"
      have "\<not> mlDetectionDone (invoke Upload ?bb)"
        using beforeBackend_failures(3) [OF i f1] by (simp add: invoke_def)
      moreover have "ocrText (metadata (base (invoke Upload ?bb))) = None"
        by (simp add: invoke_def beforeBackend_keeps)
      ultimately show "''AI-powered fake detection with OCR unavailable''
          \<in> set (issues (base ?bv))"
        using f2 by (rule beforeVerify_failures(2) [OF i])
    qed
    show ?thesis
    proof (cases "verifyCertificate e (up_id u)")
      case (Inl err)
      then have vf: "isl (verifyCertificate e (up_id u))" by simp
      let ?res = "localVerification (base (pushIssue ?m (invoke (Verify (up_id u)) ?bv))) file"
      have r: "analyzeFile e file = Inr ?res"
        by (rule analyzeFile_verify_failure [OF assms Inr vf])
      have sub: "set (issues (base ?bv)) \<subseteq> set (issues ?res)"
        using fallback_result(1) [of "invoke (Verify (up_id u)) ?bv" "file"]
        by (simp add: invoke_def)
      have "?m \<in> set (issues ?res)" by (rule fallback_result(2))
      moreover have "status ?res = valid \<or> status ?res = suspect"
        by (rule fallback_result(3))
      ultimately show ?thesis using r sub g bb_qr bb_ml bv_ocr bv_ml Inr by auto
    next
      case v: (Inr v)
      let ?res = "mergeVerification (sha256Hex e buf) v (base ?bv)"
      have r: "analyzeFile e file = Inr ?res"
        by (rule analyzeFile_success [OF assms Inr v])
      have sub: "set (issues (base ?bv)) \<subseteq> set (issues ?res)"
        by (rule set_mono_prefix [OF mergeVerification_grows])
      show ?thesis using r sub g bb_qr bb_ml bv_ocr bv_ml Inr v by auto
    qed
  qed
qed

theorem analyzeFile_total_witness:
  "arrayBuffer pngFile = Inr [1, 2, 3] \<and> isImage pngFile
   \<and> isl (readQrFromImage offlineEnv pngFile)
   \<and> isl (detectFakeCertificate offlineEnv pngFile None None)
   \<and> isl (uploadCertificate offlineEnv pngFile)
   \<and> isl (extractText offlineEnv pngFile)
   \<and> isl (verifyCertificate offlineEnv ''u1'')
   \<and> (\<exists>res. analyzeFile offlineEnv pngFile = Inr res
         \<and> ''Failed to read QR code from image'' \<in> set (issues res)
         \<and> ''AI-powered fake detection unavailable'' \<in> set (issues res)
         \<and> ''Backend verification unavailable - using local verification'' \<in> set (issues res)
         \<and> (status res = valid \<or> status res = suspect))
   \<and> uploadCertificate uploadOnlyEnv pngFile = Inr uploadOk
   \<and> isl (extractText uploadOnlyEnv pngFile)
   \<and> isl (detectFakeCertificate uploadOnlyEnv pngFile None None)
   \<and> isl (detectFakeCertificate uploadOnlyEnv pngFile (ocrOutcome uploadOnlyEnv pngFile)
             (Some (up_id uploadOk)))
   \<and> isl (verifyCertificate uploadOnlyEnv (up_id uploadOk))
   \<and> (\<exists>res. analyzeFile uploadOnlyEnv pngFile = Inr res
         \<and> ''OCR text extraction failed'' \<in> set (issues res)
         \<and> ''AI-powered fake detection with OCR unavailable'' \<in> set (issues res)
         \<and> ''Backend verification unavailable - using local verification'' \<in> set (issues res)
         \<and> (status res = valid \<or> status res = suspect))"
proof -
  have a: "arrayBuffer pngFile = Inr [1, 2, 3]" by (simp add: pngFile_def)
  have i: "isImage pngFile" by code_simp
  have off: "isl (readQrFromImage offlineEnv pngFile)"
    "isl (detectFakeCertificate offlineEnv pngFile None None)"
    "isl (uploadCertificate offlineEnv pngFile)"
    "isl (extractText offlineEnv pngFile)"
    "isl (verifyCertificate offlineEnv ''u1'')"
    by (simp_all add: offlineEnv_def readQrFromImage_def)
  have up: "uploadCertificate uploadOnlyEnv pngFile = Inr uploadOk"
    "isl (extractText uploadOnlyEnv pngFile)"
    "isl (detectFakeCertificate uploadOnlyEnv pngFile None None)"
    "isl (detectFakeCertificate uploadOnlyEnv pngFile (ocrOutcome uploadOnlyEnv pngFile)
             (Some (up_id uploadOk)))"
    "isl (verifyCertificate uploadOnlyEnv (up_id uploadOk))"
    by (simp_all add: uploadOnlyEnv_def offlineEnv_def)
  from analyzeFile_total [OF a, of offlineEnv] i off
  have w1: "\<exists>res. analyzeFile offlineEnv pngFile = Inr res
         \<and> ''Failed to read QR code from image'' \<in> set (issues res)
         \<and> ''AI-powered fake detection unavailable'' \<in> set (issues res)
         \<and> ''Backend verification unavailable - using local verification'' \<in> set (issues res)
         \<and> (status res = valid \<or> status res = suspect)"
    by blast
  from analyzeFile_total [OF a, of uploadOnlyEnv] i up
  have w2: "\<exists>res. analyzeFile uploadOnlyEnv pngFile = Inr res
         \<and> ''OCR text extraction failed'' \<in> set (issues res)
         \<and> ''AI-powered fake detection with OCR unavailable'' \<in> set (issues res)
         \<and> ''Backend verification unavailable - using local verification'' \<in> set (issues res)
         \<and> (status res = valid \<or> status res = suspect)"
    by blast
  from a i off up w1 w2 show ?thesis by blast
qed

subsection \<open>The fingerprint\<close>

lemma hex_digit_in: "d < 16 \<Longrightarrow> hex_digit d \<in> set ''0123456789abcdef''"
  unfolding hex_digit_def by (rule nth_mem) simp

lemma toString16_small: "n < 16 \<Longrightarrow> toString16 n = [hex_digit n]"
  by (simp add: toString16.simps)

lemma toString16_byte:
  "16 \<le> n \<Longrightarrow> n < 256 \<Longrightarrow> toString16 n = [hex_digit (n div 16), hex_digit (n mod 16)]"
  by (subst toString16.simps) (simp add: toString16_small)

lemma byte_hex:
  "padStart 2 (CHR ''0'') (toString16 (unat (b::byte)))
     = [hex_digit (unat b div 16), hex_digit (unat b mod 16)]"
proof -
  have lt: "unat b < 256" using unsigned_less [of b, where ?'a = nat] by simp
  show ?thesis
  proof (cases "unat b < 16")
    case True
    then show ?thesis by (simp add: toString16_small padStart_def hex_digit_def)
  next
    case False
    with lt show ?thesis by (simp add: toString16_byte padStart_def)
  qed
qed

lemma byte_hex_set:
  "set [hex_digit (unat (b::byte) div 16), hex_digit (unat b mod 16)]
     \<subseteq> set ''0123456789abcdef''"
proof -
  have "unat b < 256" using unsigned_less [of b, where ?'a = nat] by simp
  then have "unat b div 16 < 16" "unat b mod 16 < 16" by auto
  then show ?thesis using hex_digit_in by (metis empty_set empty_subsetI insert_subset list.simps(15))
qed

lemma length_concat_pairs: "length (concat (map (\<lambda>b. [f b, g b]) xs)) = 2 * length xs"
  by (induction xs) auto

text \<open>
  Claim C9, as the code has it. Where \<open>crypto.subtle\<close> is there and its digest has
  thirty-two bytes, \<open>sha256Hex\<close> returns the digest of the whole buffer as two lowercase
  hexadecimal digits a byte, sixty-four characters, the empty buffer included; the result
  depends on the digest and the buffer alone, so two runs on the same bytes agree. Where
  \<open>crypto.subtle\<close> is missing, \<open>sha256Hex\<close> returns \<open>fallback-hash-\<close> followed by the
  current time in hexadecimal, whatever the buffer.
\<close>

theorem sha256Hex_with_subtle:
  "(subtle_digest e = Some digest \<and> length (digest buf) = 32 \<longrightarrow>
      sha256Hex e buf
        = concat (map (\<lambda>b. [hex_digit (unat b div 16), hex_digit (unat b mod 16)]) (digest buf))
      \<and> length (sha256Hex e buf) = 64
      \<and> set (sha256Hex e buf) \<subseteq> set ''0123456789abcdef''
      \<and> (\<forall>e'. subtle_digest e' = Some digest \<longrightarrow> sha256Hex e' buf = sha256Hex e buf))
   \<and> (subtle_digest e = None \<longrightarrow>
      sha256Hex e buf = ''fallback-hash-'' @ toString16 (date_now e))"
proof (intro conjI impI)
  assume a: "subtle_digest e = Some digest \<and> length (digest buf) = 32"
  then show eq: "sha256Hex e buf
        = concat (map (\<lambda>b. [hex_digit (unat b div 16), hex_digit (unat b mod 16)]) (digest buf))"
    by (simp add: sha256Hex_def byte_hex)
  show "length (sha256Hex e buf) = 64"
    using a by (simp add: eq length_concat_pairs)
  show "set (sha256Hex e buf) \<subseteq> set ''0123456789abcdef''"
    unfolding eq using byte_hex_set by (auto simp del: set_simps)
  show "\<forall>e'. subtle_digest e' = Some digest \<longrightarrow> sha256Hex e' buf = sha256Hex e buf"
    using a by (simp add: sha256Hex_def)
next
  assume "subtle_digest e = None"
  then show "sha256Hex e buf = ''fallback-hash-'' @ toString16 (date_now e)"
    by (simp add: sha256Hex_def)
qed

theorem sha256Hex_with_subtle_witness:
  "subtle_digest offlineEnv = Some digestStub \<and> length (digestStub []) = 32
   \<and> sha256Hex offlineEnv []
       = ''e3b0c44298fc1c149afbf4c8996fb92427ae41e4649b934ca495991b7852b855''
   \<and> length (sha256Hex offlineEnv []) = 64
   \<and> subtle_digest detectOnlyEnv = Some digestStub
   \<and> sha256Hex detectOnlyEnv [] = sha256Hex offlineEnv []
   \<and> subtle_digest insecureEnvA = None
   \<and> sha256Hex insecureEnvA [] = ''fallback-hash-'' @ toString16 (date_now insecureEnvA)"
proof -
  have h: "subtle_digest offlineEnv = Some digestStub" by (simp add: offlineEnv_def)
  have l: "length (digestStub []) = 32" by (simp add: digestStub_def)
  have h': "subtle_digest detectOnlyEnv = Some digestStub"
    by (simp add: detectOnlyEnv_def offlineEnv_def)
  have n: "subtle_digest insecureEnvA = None" by (simp add: insecureEnvA_def)
  note t = sha256Hex_with_subtle [of offlineEnv digestStub "[]", THEN conjunct1, THEN mp,
      OF conjI [OF h l]]
  from t have a: "length (sha256Hex offlineEnv []) = 64" by (elim conjE)
  from t have "\<forall>e'. subtle_digest e' = Some digestStub
      \<longrightarrow> sha256Hex e' [] = sha256Hex offlineEnv []"
    by (elim conjE)
  with h' have b: "sha256Hex detectOnlyEnv [] = sha256Hex offlineEnv []" by (elim allE impE)
  note c = sha256Hex_with_subtle [of insecureEnvA digestStub "[]", THEN conjunct2, THEN mp, OF n]
  have v: "sha256Hex offlineEnv []
       = ''e3b0c44298fc1c149afbf4c8996fb92427ae41e4649b934ca495991b7852b855''"
    by code_simp
  from h l v a h' b n c show ?thesis by (intro conjI)
qed

text \<open>
  Claim C9, as the specification has it, fails where \<open>crypto.subtle\<close> is missing: two runs
  on the same bytes, one millisecond apart, give two results, and a result is neither
  sixty-four characters long nor made of hexadecimal digits.
\<close>

theorem sha256Hex_fallback_counterexample:
  "subtle_digest insecureEnvA = None \<and> subtle_digest insecureEnvB = None
   \<and> sha256Hex insecureEnvA [] = ''fallback-hash-3e8''
   \<and> sha256Hex insecureEnvB [] = ''fallback-hash-3e9''
   \<and> sha256Hex insecureEnvA [] \<noteq> sha256Hex insecureEnvB []
   \<and> length (sha256Hex insecureEnvA []) \<noteq> 64
   \<and> CHR ''k'' \<in> set (sha256Hex insecureEnvA [])"
  by code_simp

subsection \<open>The certificate number\<close>

lemma specToken_shape:
  assumes "specToken t"
  obtains a b c d y1 y2 y3 y4 ds where
    "t = a # b # CHR ''-'' # c # d # CHR ''-'' # y1 # y2 # y3 # y4 # CHR ''-'' # ds"
    "is_letter a" "is_letter b" "is_letter c" "is_letter d"
    "is_digit y1" "is_digit y2" "is_digit y3" "is_digit y4"
    "6 \<le> length ds" "list_all is_digit ds"
  using assms by (cases t rule: specToken.cases) auto

lemma takeWhile_digits_append:
  "list_all is_digit ds \<Longrightarrow> takeWhile is_digit (ds @ post) = ds @ takeWhile is_digit post"
  by (simp add: list_all_iff takeWhile_append2)

lemma match_here_token:
  assumes "jhToken t"
  shows "match_here (t @ post) = Some (t @ takeWhile is_digit post)"
proof -
  from assms have sp: "specToken t" and jh: "take 2 t \<in> {''JH'', ''Jh'', ''jH'', ''jh''}"
    by (simp_all add: jhToken_def)
  from sp obtain a b c d y1 y2 y3 y4 ds where
    t: "t = a # b # CHR ''-'' # c # d # CHR ''-'' # y1 # y2 # y3 # y4 # CHR ''-'' # ds"
    and l: "is_letter c" "is_letter d"
    and y: "is_digit y1" "is_digit y2" "is_digit y3" "is_digit y4"
    and n: "6 \<le> length ds" and ds: "list_all is_digit ds"
    by (rule specToken_shape)
  from jh t have ab: "(a = CHR ''J'' \<or> a = CHR ''j'') \<and> (b = CHR ''H'' \<or> b = CHR ''h'')"
    by auto
  show ?thesis
    using ab l y n by (simp add: t takeWhile_digits_append [OF ds])
qed

lemma match_here_sound:
  assumes "match_here s = Some m"
  shows "jhToken m" and "prefix m s"
proof -
  have "jhToken m \<and> prefix m s"
  proof (cases s rule: match_here.cases)
    case (1 j h d1 a b d2 y1 y2 y3 y4 d3 rest)
    let ?ds = "takeWhile is_digit rest"
    let ?c = "(j = CHR ''J'' \<or> j = CHR ''j'') \<and> (h = CHR ''H'' \<or> h = CHR ''h'') \<and> d1 = CHR ''-''
         \<and> is_letter a \<and> is_letter b \<and> d2 = CHR ''-''
         \<and> is_digit y1 \<and> is_digit y2 \<and> is_digit y3 \<and> is_digit y4 \<and> d3 = CHR ''-''
         \<and> 6 \<le> length ?ds"
    have eq: "match_here s
        = (if ?c then Some ([j, h, d1, a, b, d2, y1, y2, y3, y4, d3] @ ?ds) else None)"
      unfolding 1 by (rule match_here.simps(1))
    have c: ?c
    proof (rule ccontr)
      assume "\<not> ?c"
      then have "match_here s = None" unfolding eq by (rule if_not_P)
      with assms show False by simp
    qed
    from c have "match_here s = Some ([j, h, d1, a, b, d2, y1, y2, y3, y4, d3] @ ?ds)"
      unfolding eq by (rule if_P)
    with assms have m: "m = [j, h, d1, a, b, d2, y1, y2, y3, y4, d3] @ ?ds"
      by (simp only: option.inject)
    have d: "list_all is_digit ?ds"
      by (auto simp: list_all_iff dest: set_takeWhileD)
    note cj = c [THEN conjunct1] and c1 = c [THEN conjunct2]
    note ch = c1 [THEN conjunct1] and c2 = c1 [THEN conjunct2]
    have "take 2 m = [j, h]" unfolding m by simp
    with cj ch have jh: "take 2 m \<in> {''JH'', ''Jh'', ''jH'', ''jh''}"
      by auto
    from c2 have c': "d1 = CHR ''-''" "is_letter a" "is_letter b" "d2 = CHR ''-''"
      "is_digit y1" "is_digit y2" "is_digit y3" "is_digit y4" "d3 = CHR ''-''" "6 \<le> length ?ds"
      by simp_all
    from cj ch have lj: "is_letter j" and lh: "is_letter h"
      by (auto simp: is_letter_def)
    have sp: "specToken m"
      unfolding m using c' lj lh d by simp
    have "s = m @ dropWhile is_digit rest"
      unfolding 1 m by simp
    then have "prefix m s" by (rule prefixI)
    with jh sp show ?thesis by (simp add: jhToken_def)
  qed (use assms in simp_all)
  then show "jhToken m" and "prefix m s" by simp_all
qed

lemma tokenStartsAt_iff: "tokenStartsAt i s = (match_here (drop i s) \<noteq> None)"
proof
  assume "tokenStartsAt i s"
  then obtain n where "jhToken (take n (drop i s))"
    by (auto simp: tokenStartsAt_def list_ex_iff simp del: upt_Suc)
  from match_here_token [OF this, of "drop n (drop i s)"]
  have "match_here (drop i s)
      = Some (take n (drop i s) @ takeWhile is_digit (drop n (drop i s)))"
    by (simp only: append_take_drop_id)
  then show "match_here (drop i s) \<noteq> None" by simp
next
  assume "match_here (drop i s) \<noteq> None"
  then obtain m where m: "match_here (drop i s) = Some m" by auto
  from match_here_sound [OF m] have j: "jhToken m" and p: "prefix m (drop i s)" .
  from p have "m = take (length m) (drop i s)" by (auto simp: prefix_def)
  moreover from p have "length m \<le> length s"
    using prefix_length_le [OF p] by simp
  ultimately show "tokenStartsAt i s"
    using j by (auto simp: tokenStartsAt_def list_ex_iff simp del: upt_Suc intro!: bexI [of _ "length m"])
qed

lemma regex_match_leftmost:
  assumes "match_here s = Some m" "\<forall>i<length pre. match_here (drop i (pre @ s)) = None"
  shows "regex_match (pre @ s) = Some m"
  using assms
proof (induction pre)
  case Nil
  then show ?case by (cases s) auto
next
  case (Cons p ps)
  from Cons.prems(2) have "match_here (drop 0 ((p # ps) @ s)) = None" by blast
  then have h: "match_here (p # ps @ s) = None" by simp
  have "\<forall>i<length ps. match_here (drop i (ps @ s)) = None"
  proof (intro allI impI)
    fix i assume "i < length ps"
    then have "Suc i < length (p # ps)" by simp
    with Cons.prems(2) have "match_here (drop (Suc i) ((p # ps) @ s)) = None" by blast
    then show "match_here (drop i (ps @ s)) = None" by simp
  qed
  with Cons.IH Cons.prems(1) have "regex_match (ps @ s) = Some m" by blast
  with h show ?case by simp
qed

lemma regex_match_none:
  "(\<forall>i<length s. match_here (drop i s) = None) \<Longrightarrow> regex_match s = None"
proof (induction s)
  case Nil
  then show ?case by simp
next
  case (Cons c cs)
  from Cons.prems have h: "match_here (c # cs) = None" by (metis drop0 length_greater_0_conv list.distinct(1))
  have "\<forall>i<length cs. match_here (drop i cs) = None"
  proof (intro allI impI)
    fix i assume "i < length cs"
    then have "Suc i < length (c # cs)" by simp
    with Cons.prems have "match_here (drop (Suc i) (c # cs)) = None" by blast
    then show "match_here (drop i cs) = None" by simp
  qed
  with Cons.IH have "regex_match cs = None" by blast
  with h show ?case by simp
qed

lemma inferCertificateNumber_source:
  "inferCertificateNumber b file
       = (case extractCertificateNumber (qrData (metadata b)) of
            Some n \<Rightarrow> Some n
          | None \<Rightarrow> extractCertificateNumber (Some (file_name file)))"
proof (cases "extractCertificateNumber (qrData (metadata b))")
  case None
  then show ?thesis by (simp add: inferCertificateNumber_def Let_def truthy_def)
next
  case (Some n)
  then have n: "n \<noteq> []" by (rule extractCertificateNumber_truthy)
  from Some have q: "truthy (qrData (metadata b))"
    by (auto simp: extractCertificateNumber_def truthy_def split: option.splits if_splits)
  from Some n q show ?thesis by (simp add: inferCertificateNumber_def Let_def truthy_def)
qed

text \<open>
  Claim C8, as the code has it. The token that \<open>extractCertificateNumber\<close> looks for
  starts with \<open>J\<close> and \<open>H\<close>, in either case. For an input in which such a token stands
  and no such token starts earlier, the result is that token, extended by the digits that
  follow it, in upper case. For an input in which no such token starts anywhere, the result is
  \<open>null\<close>. The number that the local matcher uses is the one extracted from the QR data
  where that gives one, and the one extracted from the file name otherwise, also when
  there is QR data that holds no number.
\<close>

theorem extractCertificateNumber_leftmost_token:
  "(jhToken tok \<and> (\<forall>i<length pre. \<not> tokenStartsAt i (pre @ tok @ post)) \<longrightarrow>
      extractCertificateNumber (Some (pre @ tok @ post))
        = Some (toUpperCase (tok @ takeWhile is_digit post)))
   \<and> ((\<forall>i<length s. \<not> tokenStartsAt i s) \<longrightarrow> extractCertificateNumber (Some s) = None)
   \<and> inferCertificateNumber b file
       = (case extractCertificateNumber (qrData (metadata b)) of
            Some n \<Rightarrow> Some n
          | None \<Rightarrow> extractCertificateNumber (Some (file_name file)))"
proof (intro conjI impI)
  assume a: "jhToken tok \<and> (\<forall>i<length pre. \<not> tokenStartsAt i (pre @ tok @ post))"
  then have m: "match_here (tok @ post) = Some (tok @ takeWhile is_digit post)"
    by (simp add: match_here_token)
  from a have "\<forall>i<length pre. match_here (drop i (pre @ tok @ post)) = None"
    by (simp add: tokenStartsAt_iff)
  from regex_match_leftmost [OF m this]
  have "regex_match (pre @ tok @ post) = Some (tok @ takeWhile is_digit post)" .
  moreover from m have "tok @ post \<noteq> []" by auto
  ultimately show "extractCertificateNumber (Some (pre @ tok @ post))
        = Some (toUpperCase (tok @ takeWhile is_digit post))"
    by (simp add: extractCertificateNumber_def)
next
  assume "\<forall>i<length s. \<not> tokenStartsAt i s"
  then have "regex_match s = None"
    by (intro regex_match_none) (simp add: tokenStartsAt_iff)
  then show "extractCertificateNumber (Some s) = None"
    by (simp add: extractCertificateNumber_def)
next
  show "inferCertificateNumber b file
       = (case extractCertificateNumber (qrData (metadata b)) of
            Some n \<Rightarrow> Some n
          | None \<Rightarrow> extractCertificateNumber (Some (file_name file)))"
    by (rule inferCertificateNumber_source)
qed

theorem extractCertificateNumber_leftmost_token_witness:
  "jhToken ''jh-ab-2020-123456''
   \<and> \<not> tokenStartsAt 0 (''x'' @ ''jh-ab-2020-123456'' @ ''78.pdf'')
   \<and> extractCertificateNumber (Some (''x'' @ ''jh-ab-2020-123456'' @ ''78.pdf''))
       = Some ''JH-AB-2020-12345678''
   \<and> list_all (\<lambda>i. \<not> tokenStartsAt i ''AB-CD-2020-123456'') [0..<length ''AB-CD-2020-123456'']
   \<and> extractCertificateNumber (Some ''AB-CD-2020-123456'') = None"
proof -
  have j: "jhToken ''jh-ab-2020-123456''" by code_simp
  have n0: "\<not> tokenStartsAt 0 (''x'' @ ''jh-ab-2020-123456'' @ ''78.pdf'')" by code_simp
  then have n: "\<forall>i<length ''x''. \<not> tokenStartsAt i (''x'' @ ''jh-ab-2020-123456'' @ ''78.pdf'')"
    by simp
  have u: "toUpperCase (''jh-ab-2020-123456'' @ takeWhile is_digit ''78.pdf'') = ''JH-AB-2020-12345678''"
    by code_simp
  have l: "list_all (\<lambda>i. \<not> tokenStartsAt i ''AB-CD-2020-123456'') [0..<length ''AB-CD-2020-123456'']"
    by code_simp
  then have a: "\<forall>i<length ''AB-CD-2020-123456''. \<not> tokenStartsAt i ''AB-CD-2020-123456''"
    unfolding list_all_iff by (simp del: upt_Suc)
  from extractCertificateNumber_leftmost_token
         [of "''jh-ab-2020-123456''" "''x''" "''78.pdf''" "''AB-CD-2020-123456''"] j n a
  have e: "extractCertificateNumber (Some (''x'' @ ''jh-ab-2020-123456'' @ ''78.pdf''))
          = Some (toUpperCase (''jh-ab-2020-123456'' @ takeWhile is_digit ''78.pdf''))"
    and z: "extractCertificateNumber (Some ''AB-CD-2020-123456'') = None"
    by blast+
  note e' = e [unfolded u]
  from j n0 e' l z show ?thesis by (intro conjI)
qed

text \<open>
  Claim C8, as the specification has it, fails on a token of the stated shape whose first
  two letters are not \<open>J\<close> and \<open>H\<close>, for which the result is \<open>null\<close>; and where QR data
  is present and holds no number, the number is taken from the file name.
\<close>

theorem extractCertificateNumber_counterexample:
  "specToken ''AB-CD-2020-123456''
   \<and> extractCertificateNumber (Some ''AB-CD-2020-123456'') = None
   \<and> extractCertificateNumber (Some ''AB-CD-2020-123456'')
       \<noteq> Some (toUpperCase ''AB-CD-2020-123456'')
   \<and> qrData (metadata qrEvidence) = Some ''https://verify.example/c/42''
   \<and> extractCertificateNumber (qrData (metadata qrEvidence)) = None
   \<and> file_name pngFile = ''scan-jh-ru-2021-004567.png''
   \<and> inferCertificateNumber qrEvidence pngFile = Some ''JH-RU-2021-004567''"
  by code_simp

end
